theory Spec2Isabelle
  imports Complex_Main
begin

section \<open>NamedFunc: a named scalar or vector function of an event record\<close>

text \<open>
  This theory embeds \<^verbatim>\<open>src/core/named_func.cpp\<close>. A \<^verbatim>\<open>NamedFunc\<close> pairs a
  name with two \<^verbatim>\<open>std::function\<close> members, one returning a scalar and one
  returning a vector, over an event record (\<^verbatim>\<open>Baby\<close>).

  Conventions of the embedding:
  \<^item> \<^verbatim>\<open>ScalarType\<close> (\<^verbatim>\<open>double\<close>, declared in the header) is idealised as
    \<^typ>\<open>real\<close>: infinities, NaN and rounding are not represented. A scalar is
    false exactly when it is \<open>0\<close>; a \<^verbatim>\<open>bool\<close> stored into a scalar is
    \<open>1\<close> or \<open>0\<close>.
  \<^item> The record type \<^verbatim>\<open>Baby\<close> is a type variable \<open>'b\<close>.
  \<^item> A callable may have side effects and may throw. It is a function from the
    record and the state \<open>'w\<close> of everything it can touch to a result and the new
    state; the result is \<open>Inl\<close> of an error when it throws. The state reached
    before a throw is kept.
  \<^item> A \<^verbatim>\<open>std::function\<close> may be empty: it is an \<open>option\<close>.
\<close>

subsection \<open>Errors and results\<close>

datatype error =
    InvalidShapeError      \<comment> \<open>\<^verbatim>\<open>std::bad_function_call\<close>: an empty function was called\<close>
  | ShapeMismatchError     \<comment> \<open>raised by \<^verbatim>\<open>ERROR\<close> in the indexing operator\<close>
  | IndexOutOfRangeError   \<comment> \<open>\<^verbatim>\<open>std::out_of_range\<close> from \<^verbatim>\<open>vector::at\<close>\<close>

text \<open>
  Modelled from the spec: the header \<^verbatim>\<open>core/named_func.hpp\<close>, which declares
  \<^verbatim>\<open>ScalarType\<close>, \<^verbatim>\<open>VectorType\<close>, \<^verbatim>\<open>ScalarFunc\<close> and \<^verbatim>\<open>VectorFunc\<close>, is
  not among the sources. The scalar is "a single scalar numeric type (floating point)",
  the vector "an ordered sequence of number", and the two function types take the record
  and return the one or the other.
\<close>

type_synonym ScalarType = real
type_synonym VectorType = "real list"

type_synonym ('b, 'w) ScalarFunc = "'b \<Rightarrow> 'w \<Rightarrow> (error + ScalarType) \<times> 'w"
type_synonym ('b, 'w) VectorFunc = "'b \<Rightarrow> 'w \<Rightarrow> (error + VectorType) \<times> 'w"

definition return_val :: "'a \<Rightarrow> 'w \<Rightarrow> (error + 'a) \<times> 'w" where
  "return_val x w = (Inr x, w)"

definition throw :: "error \<Rightarrow> 'w \<Rightarrow> (error + 'a) \<times> 'w" where
  "throw e w = (Inl e, w)"

text \<open>Sequencing: run \<open>m\<close>; if it throws, the exception leaves with the state reached.\<close>

definition and_then ::
  "('w \<Rightarrow> (error + 'a) \<times> 'w) \<Rightarrow> ('a \<Rightarrow> 'w \<Rightarrow> (error + 'c) \<times> 'w) \<Rightarrow> 'w \<Rightarrow> (error + 'c) \<times> 'w"
where
  "and_then m k w = (case m w of (Inl e, w') \<Rightarrow> (Inl e, w') | (Inr x, w') \<Rightarrow> k x w')"

text \<open>Lifting of a computation that may throw but touches no state.\<close>

definition lift :: "error + 'a \<Rightarrow> 'w \<Rightarrow> (error + 'a) \<times> 'w" where
  "lift r w = (r, w)"

text \<open>Calling a \<^verbatim>\<open>std::function\<close>: an empty one throws \<^verbatim>\<open>bad_function_call\<close>.\<close>

definition call :: "('b \<Rightarrow> 'w \<Rightarrow> (error + 'a) \<times> 'w) option \<Rightarrow> 'b \<Rightarrow> 'w \<Rightarrow> (error + 'a) \<times> 'w" where
  "call f b = (case f of None \<Rightarrow> throw InvalidShapeError | Some g \<Rightarrow> g b)"

subsection \<open>Vectors\<close>

text \<open>\<^verbatim>\<open>v.at(i)\<close> as a read and \<^verbatim>\<open>v.at(i) = x\<close> as a write, both bounds-checked.\<close>

definition vector_at :: "'a list \<Rightarrow> nat \<Rightarrow> error + 'a" where
  "vector_at v i = (if i < length v then Inr (v ! i) else Inl IndexOutOfRangeError)"

definition vector_at_put :: "'a list \<Rightarrow> nat \<Rightarrow> 'a \<Rightarrow> error + 'a list" where
  "vector_at_put v i x = (if i < length v then Inr (v[i := x]) else Inl IndexOutOfRangeError)"

text \<open>Conversions between \<^verbatim>\<open>bool\<close> and \<^verbatim>\<open>ScalarType\<close>.\<close>

definition truthy :: "ScalarType \<Rightarrow> bool" where
  "truthy x = (x \<noteq> 0)"

definition of_truth :: "bool \<Rightarrow> ScalarType" where
  "of_truth p = (if p then 1 else 0)"

text \<open>
  Conversion of a scalar to \<^verbatim>\<open>size_t\<close>, taken as 64 bits: the fractional part is
  dropped, towards zero, so every value above \<open>-1\<close> and below zero becomes \<open>0\<close>. A
  truncated value that does not fit the type is reduced modulo \<open>2 ^ 64\<close>, as the
  conversion of an integer to an unsigned type is: a negative index becomes a number
  close to \<open>2 ^ 64\<close>, \<open>-1\<close> the largest of the type. C++ itself leaves the result
  open outside the range of the type.
\<close>

definition to_size_t :: "ScalarType \<Rightarrow> nat" where
  "to_size_t x = nat ((if 0 \<le> x then \<lfloor>x\<rfloor> else \<lceil>x\<rceil>) mod 2 ^ 64)"

subsection \<open>The aggregate helpers \<^verbatim>\<open>HavePass\<close>\<close>

text \<open>
  \<^verbatim>\<open>bool HavePass(const VectorType &v)\<close>: the range-for returns at the first
  true element.
\<close>

fun HavePass :: "VectorType \<Rightarrow> bool" where
  "HavePass [] = False"
| "HavePass (x # v) = (if truthy x then True else HavePass v)"

text \<open>
  \<^verbatim>\<open>bool HavePass(const std::vector<VectorType> &vv)\<close>. The inner loop
  \<^verbatim>\<open>for(iv = 0; this_pass && iv < vv.size(); ++iv)\<close> carries \<open>this_pass\<close>; the test
  \<^verbatim>\<open>ix>=vv.at(iv).size() || !vv.at(iv).at(ix)\<close> reads the element only when the index is
  in range.
\<close>

function HavePass_inner :: "VectorType list \<Rightarrow> nat \<Rightarrow> nat \<Rightarrow> bool \<Rightarrow> error + bool" where
  "HavePass_inner vv ix iv this_pass =
     (if this_pass \<and> iv < length vv then
        (case vector_at vv iv of
           Inl e \<Rightarrow> Inl e
         | Inr v \<Rightarrow>
             if ix \<ge> length v then HavePass_inner vv ix (Suc iv) False
             else (case vector_at v ix of
                     Inl e \<Rightarrow> Inl e
                   | Inr x \<Rightarrow>
                       if \<not> truthy x then HavePass_inner vv ix (Suc iv) False
                       else HavePass_inner vv ix (Suc iv) this_pass))
      else Inr this_pass)"
  by pat_completeness auto
termination
  by (relation "measure (\<lambda>(vv, ix, iv, this_pass). length vv - iv)") auto

declare HavePass_inner.simps [simp del]

text \<open>
  The outer loop \<^verbatim>\<open>for(ix = 0; ix < vv.at(0).size(); ++ix)\<close> returns true at the
  first index that passes.
\<close>

function HavePass_outer :: "VectorType list \<Rightarrow> nat \<Rightarrow> error + bool" where
  "HavePass_outer vv ix =
     (case vector_at vv 0 of
        Inl e \<Rightarrow> Inl e
      | Inr v0 \<Rightarrow>
          if ix < length v0 then
            (case HavePass_inner vv ix 0 True of
               Inl e \<Rightarrow> Inl e
             | Inr this_pass \<Rightarrow> if this_pass then Inr True else HavePass_outer vv (Suc ix))
          else Inr False)"
  by pat_completeness auto
termination
  by (relation "measure (\<lambda>(vv, ix). length (vv ! 0) - ix)") (auto simp: vector_at_def split: if_splits)

declare HavePass_outer.simps [simp del]

definition HavePass_vv :: "VectorType list \<Rightarrow> error + bool" where
  "HavePass_vv vv = (if length vv = 0 then Inr False else HavePass_outer vv 0)"

subsection \<open>Unary operators on functions\<close>

text \<open>
  \<^verbatim>\<open>ApplyOp(const function<ScalarFunc> &f, const Operator &op)\<close>: an empty \<open>f\<close> is
  returned as it is; otherwise the closure calls \<open>f\<close> and applies the operator.
\<close>

definition ApplyOp_scalar ::
  "('b, 'w) ScalarFunc option \<Rightarrow> (ScalarType \<Rightarrow> ScalarType) \<Rightarrow> ('b, 'w) ScalarFunc option"
where
  "ApplyOp_scalar f op_c =
     (case f of
        None \<Rightarrow> None
      | Some g \<Rightarrow> Some (\<lambda>b. and_then (g b) (\<lambda>x. return_val (op_c x))))"

text \<open>
  \<^verbatim>\<open>ApplyOp(const function<VectorFunc> &f, const Operator &op)\<close>: the closure
  overwrites every element of the vector in place, \<^verbatim>\<open>for(auto &x: v) x = op_c(x)\<close>.
\<close>

fun apply_each :: "(ScalarType \<Rightarrow> ScalarType) \<Rightarrow> VectorType \<Rightarrow> VectorType" where
  "apply_each op_c [] = []"
| "apply_each op_c (x # v) = op_c x # apply_each op_c v"

definition ApplyOp_vector ::
  "('b, 'w) VectorFunc option \<Rightarrow> (ScalarType \<Rightarrow> ScalarType) \<Rightarrow> ('b, 'w) VectorFunc option"
where
  "ApplyOp_vector f op_c =
     (case f of
        None \<Rightarrow> None
      | Some g \<Rightarrow> Some (\<lambda>b. and_then (g b) (\<lambda>v. return_val (apply_each op_c v))))"

subsection \<open>Binary operators on functions\<close>

text \<open>
  The three vector closures of the generic \<^verbatim>\<open>ApplyOp\<close> share one loop,
  \<^verbatim>\<open>for(size_t i = 0; i < vo.size(); ++i) vo.at(i) = ...;\<close>, over an output vector
  allocated beforehand. \<open>elem i\<close> is the right-hand side at index \<open>i\<close>; it throws when one
  of its \<^verbatim>\<open>at\<close> calls does.
\<close>

function fill_loop :: "(nat \<Rightarrow> error + ScalarType) \<Rightarrow> nat \<Rightarrow> VectorType \<Rightarrow> error + VectorType" where
  "fill_loop elem i vo =
     (if i < length vo then
        (case elem i of
           Inl e \<Rightarrow> Inl e
         | Inr x \<Rightarrow>
             (case vector_at_put vo i x of
                Inl e \<Rightarrow> Inl e
              | Inr vo' \<Rightarrow> fill_loop elem (Suc i) vo'))
      else Inr vo)"
  by pat_completeness auto
termination
  by (relation "measure (\<lambda>(elem, i, vo). length vo - i)")
     (auto simp: vector_at_put_def split: if_splits)

declare fill_loop.simps [simp del]

text \<open>\<^verbatim>\<open>VectorType vo(n)\<close>: \<open>n\<close> elements, each zero.\<close>

definition new_vector :: "nat \<Rightarrow> VectorType" where
  "new_vector n = replicate n 0"

text \<open>The right-hand sides \<^verbatim>\<open>op_c(sa, vb.at(i))\<close>, \<^verbatim>\<open>op_c(va.at(i), sb)\<close> and
  \<^verbatim>\<open>op_c(va.at(i), vb.at(i))\<close>.\<close>

definition elem_sv :: "(ScalarType \<Rightarrow> ScalarType \<Rightarrow> ScalarType) \<Rightarrow> ScalarType \<Rightarrow> VectorType \<Rightarrow> nat \<Rightarrow> error + ScalarType" where
  "elem_sv op_c sa vb i = (case vector_at vb i of Inl e \<Rightarrow> Inl e | Inr y \<Rightarrow> Inr (op_c sa y))"

definition elem_vs :: "(ScalarType \<Rightarrow> ScalarType \<Rightarrow> ScalarType) \<Rightarrow> VectorType \<Rightarrow> ScalarType \<Rightarrow> nat \<Rightarrow> error + ScalarType" where
  "elem_vs op_c va sb i = (case vector_at va i of Inl e \<Rightarrow> Inl e | Inr x \<Rightarrow> Inr (op_c x sb))"

definition elem_vv :: "(ScalarType \<Rightarrow> ScalarType \<Rightarrow> ScalarType) \<Rightarrow> VectorType \<Rightarrow> VectorType \<Rightarrow> nat \<Rightarrow> error + ScalarType" where
  "elem_vv op_c va vb i =
     (case vector_at va i of
        Inl e \<Rightarrow> Inl e
      | Inr x \<Rightarrow> (case vector_at vb i of Inl e \<Rightarrow> Inl e | Inr y \<Rightarrow> Inr (op_c x y)))"

text \<open>
  The four closures of the generic \<^verbatim>\<open>ApplyOp\<close>. In the vector closures the two
  operands are evaluated by two statements, the left one first. In the scalar closure they
  are the two arguments of one call, \<^verbatim>\<open>op_c(sfa(b), sfb(b))\<close>, whose order C++ leaves to
  the compiler; the left one is taken first here.
\<close>

definition closure_ss ::
  "(ScalarType \<Rightarrow> ScalarType \<Rightarrow> ScalarType) \<Rightarrow> ('b, 'w) ScalarFunc \<Rightarrow> ('b, 'w) ScalarFunc \<Rightarrow> ('b, 'w) ScalarFunc"
where
  "closure_ss op_c sfa sfb b =
     and_then (sfa b) (\<lambda>x. and_then (sfb b) (\<lambda>y. return_val (op_c x y)))"

definition closure_sv ::
  "(ScalarType \<Rightarrow> ScalarType \<Rightarrow> ScalarType) \<Rightarrow> ('b, 'w) ScalarFunc \<Rightarrow> ('b, 'w) VectorFunc \<Rightarrow> ('b, 'w) VectorFunc"
where
  "closure_sv op_c sfa vfb b =
     and_then (sfa b) (\<lambda>sa. and_then (vfb b) (\<lambda>vb.
       lift (fill_loop (elem_sv op_c sa vb) 0 (new_vector (length vb)))))"

definition closure_vs ::
  "(ScalarType \<Rightarrow> ScalarType \<Rightarrow> ScalarType) \<Rightarrow> ('b, 'w) VectorFunc \<Rightarrow> ('b, 'w) ScalarFunc \<Rightarrow> ('b, 'w) VectorFunc"
where
  "closure_vs op_c vfa sfb b =
     and_then (vfa b) (\<lambda>va. and_then (sfb b) (\<lambda>sb.
       lift (fill_loop (elem_vs op_c va sb) 0 (new_vector (length va)))))"

definition closure_vv ::
  "(ScalarType \<Rightarrow> ScalarType \<Rightarrow> ScalarType) \<Rightarrow> ('b, 'w) VectorFunc \<Rightarrow> ('b, 'w) VectorFunc \<Rightarrow> ('b, 'w) VectorFunc"
where
  "closure_vv op_c vfa vfb b =
     and_then (vfa b) (\<lambda>va. and_then (vfb b) (\<lambda>vb.
       lift (fill_loop (elem_vv op_c va vb) 0
               (new_vector (if length va > length vb then length vb else length va)))))"

text \<open>
  The generic \<^verbatim>\<open>ApplyOp(sfa, vfa, sfb, vfb, op)\<close>: the first matching pair of
  non-empty functions decides; when none matches both results stay empty.
\<close>

definition ApplyOp ::
  "('b, 'w) ScalarFunc option \<Rightarrow> ('b, 'w) VectorFunc option \<Rightarrow>
   ('b, 'w) ScalarFunc option \<Rightarrow> ('b, 'w) VectorFunc option \<Rightarrow>
   (ScalarType \<Rightarrow> ScalarType \<Rightarrow> ScalarType) \<Rightarrow>
   ('b, 'w) ScalarFunc option \<times> ('b, 'w) VectorFunc option"
where
  "ApplyOp sfa vfa sfb vfb op_c =
     (if sfa \<noteq> None \<and> sfb \<noteq> None then (Some (closure_ss op_c (the sfa) (the sfb)), None)
      else if sfa \<noteq> None \<and> vfb \<noteq> None then (None, Some (closure_sv op_c (the sfa) (the vfb)))
      else if vfa \<noteq> None \<and> sfb \<noteq> None then (None, Some (closure_vs op_c (the vfa) (the sfb)))
      else if vfa \<noteq> None \<and> vfb \<noteq> None then (None, Some (closure_vv op_c (the vfa) (the vfb)))
      else (None, None))"

subsection \<open>Short-circuiting \<^verbatim>\<open>&&\<close>\<close>

text \<open>
  Scalar and scalar: \<^verbatim>\<open>sfa(b)&&sfb(b)\<close> is the built-in operator, so the right operand
  is called only when the left one is true.
\<close>

definition and_ss :: "('b, 'w) ScalarFunc \<Rightarrow> ('b, 'w) ScalarFunc \<Rightarrow> ('b, 'w) ScalarFunc" where
  "and_ss sfa sfb b =
     and_then (sfa b) (\<lambda>x.
       if truthy x then and_then (sfb b) (\<lambda>y. return_val (of_truth (truthy y)))
       else return_val (of_truth False))"

text \<open>
  Scalar and vector: \<^verbatim>\<open>if(!sa) return VectorType(vfb(b).size(), false); else return vfb(b);\<close>
\<close>

definition and_sv :: "('b, 'w) ScalarFunc \<Rightarrow> ('b, 'w) VectorFunc \<Rightarrow> ('b, 'w) VectorFunc" where
  "and_sv sfa vfb b =
     and_then (sfa b) (\<lambda>sa.
       if \<not> truthy sa then and_then (vfb b) (\<lambda>vb. return_val (replicate (length vb) (of_truth False)))
       else vfb b)"

text \<open>
  Vector and scalar: one pass of the loop body
  \<^verbatim>\<open>if(!evaluated && va.at(i)){ evaluated = true; sb = sfb(b); } vo.at(i) = va.at(i)&&sb;\<close>
  on the locals \<open>(evaluated, sb, vo)\<close>.
\<close>

definition and_vs_step ::
  "('b, 'w) ScalarFunc \<Rightarrow> 'b \<Rightarrow> VectorType \<Rightarrow> nat \<Rightarrow> bool \<times> ScalarType \<times> VectorType \<Rightarrow>
   'w \<Rightarrow> (error + bool \<times> ScalarType \<times> VectorType) \<times> 'w"
where
  "and_vs_step sfb b va i locals =
     (case locals of (evaluated, sb, vo) \<Rightarrow>
        and_then
          (if \<not> evaluated then
             and_then (lift (vector_at va i)) (\<lambda>x.
               if truthy x then and_then (sfb b) (\<lambda>y. return_val (True, y))
               else return_val (evaluated, sb))
           else return_val (evaluated, sb))
          (\<lambda>(evaluated', sb').
             and_then (lift (vector_at va i)) (\<lambda>x.
               and_then (lift (vector_at_put vo i (of_truth (truthy x \<and> truthy sb')))) (\<lambda>vo'.
                 return_val (evaluated', sb', vo')))))"

lemma and_vs_step_length:
  assumes "and_vs_step sfb b va i (evaluated, sb, vo) w = (Inr (evaluated', sb', vo'), w')"
  shows "length vo' = length vo"
  using assms
  by (auto simp: and_vs_step_def and_then_def lift_def return_val_def vector_at_put_def
           split: if_splits sum.splits prod.splits)

text \<open>
  The loop \<^verbatim>\<open>for(size_t i = 0; i < vo.size(); ++i)\<close> around that body, with
  \<^verbatim>\<open>evaluated = false\<close> and \<^verbatim>\<open>sb = 0.\<close> on entry.
\<close>

function and_vs_loop ::
  "('b, 'w) ScalarFunc \<Rightarrow> 'b \<Rightarrow> VectorType \<Rightarrow> nat \<Rightarrow> bool \<Rightarrow> ScalarType \<Rightarrow> VectorType \<Rightarrow>
   'w \<Rightarrow> (error + VectorType) \<times> 'w"
where
  "and_vs_loop sfb b va i evaluated sb vo w =
     (if i < length vo then
        (case and_vs_step sfb b va i (evaluated, sb, vo) w of
           (Inl e, w') \<Rightarrow> (Inl e, w')
         | (Inr (evaluated', sb', vo'), w') \<Rightarrow> and_vs_loop sfb b va (Suc i) evaluated' sb' vo' w')
      else (Inr vo, w))"
  by pat_completeness auto
termination
  by (relation "measure (\<lambda>(sfb, b, va, i, evaluated, sb, vo, w). length vo - i)")
     (auto dest!: and_vs_step_length [OF sym])

declare and_vs_loop.simps [simp del]

definition and_vs :: "('b, 'w) VectorFunc \<Rightarrow> ('b, 'w) ScalarFunc \<Rightarrow> ('b, 'w) VectorFunc" where
  "and_vs vfa sfb b =
     and_then (vfa b) (\<lambda>va. and_vs_loop sfb b va 0 False 0 (new_vector (length va)))"

text \<open>
  Vector and vector: the generic loop with \<^verbatim>\<open>va.at(i)&&vb.at(i)\<close>; the right element
  is read only when the left one is true.
\<close>

definition elem_and_vv :: "VectorType \<Rightarrow> VectorType \<Rightarrow> nat \<Rightarrow> error + ScalarType" where
  "elem_and_vv va vb i =
     (case vector_at va i of
        Inl e \<Rightarrow> Inl e
      | Inr x \<Rightarrow>
          if truthy x then (case vector_at vb i of Inl e \<Rightarrow> Inl e | Inr y \<Rightarrow> Inr (of_truth (truthy y)))
          else Inr (of_truth False))"

definition and_vv :: "('b, 'w) VectorFunc \<Rightarrow> ('b, 'w) VectorFunc \<Rightarrow> ('b, 'w) VectorFunc" where
  "and_vv vfa vfb b =
     and_then (vfa b) (\<lambda>va. and_then (vfb b) (\<lambda>vb.
       lift (fill_loop (elem_and_vv va vb) 0
               (new_vector (if length va > length vb then length vb else length va)))))"

text \<open>The specialisation \<^verbatim>\<open>ApplyOp(sfa, vfa, sfb, vfb, logical_and<ScalarType>)\<close>.\<close>

definition ApplyOp_logical_and ::
  "('b, 'w) ScalarFunc option \<Rightarrow> ('b, 'w) VectorFunc option \<Rightarrow>
   ('b, 'w) ScalarFunc option \<Rightarrow> ('b, 'w) VectorFunc option \<Rightarrow>
   ('b, 'w) ScalarFunc option \<times> ('b, 'w) VectorFunc option"
where
  "ApplyOp_logical_and sfa vfa sfb vfb =
     (if sfa \<noteq> None \<and> sfb \<noteq> None then (Some (and_ss (the sfa) (the sfb)), None)
      else if sfa \<noteq> None \<and> vfb \<noteq> None then (None, Some (and_sv (the sfa) (the vfb)))
      else if vfa \<noteq> None \<and> sfb \<noteq> None then (None, Some (and_vs (the vfa) (the sfb)))
      else if vfa \<noteq> None \<and> vfb \<noteq> None then (None, Some (and_vv (the vfa) (the vfb)))
      else (None, None))"

subsection \<open>Short-circuiting \<^verbatim>\<open>||\<close>\<close>

text \<open>Scalar or scalar: \<^verbatim>\<open>sfa(b)||sfb(b)\<close> calls the right operand only when the left
  one is false.\<close>

definition or_ss :: "('b, 'w) ScalarFunc \<Rightarrow> ('b, 'w) ScalarFunc \<Rightarrow> ('b, 'w) ScalarFunc" where
  "or_ss sfa sfb b =
     and_then (sfa b) (\<lambda>x.
       if truthy x then return_val (of_truth True)
       else and_then (sfb b) (\<lambda>y. return_val (of_truth (truthy y))))"

text \<open>
  Scalar or vector: \<^verbatim>\<open>if(sa) return VectorType(vfb(b).size(), true); else return vfb(b);\<close>
\<close>

definition or_sv :: "('b, 'w) ScalarFunc \<Rightarrow> ('b, 'w) VectorFunc \<Rightarrow> ('b, 'w) VectorFunc" where
  "or_sv sfa vfb b =
     and_then (sfa b) (\<lambda>sa.
       if truthy sa then and_then (vfb b) (\<lambda>vb. return_val (replicate (length vb) (of_truth True)))
       else vfb b)"

text \<open>
  Vector or scalar: the loop body
  \<^verbatim>\<open>if(!(evaluated || va.at(i))){ evaluated = true; sb = sfb(b); } vo.at(i) = va.at(i)||sb;\<close>
\<close>

definition or_vs_step ::
  "('b, 'w) ScalarFunc \<Rightarrow> 'b \<Rightarrow> VectorType \<Rightarrow> nat \<Rightarrow> bool \<times> ScalarType \<times> VectorType \<Rightarrow>
   'w \<Rightarrow> (error + bool \<times> ScalarType \<times> VectorType) \<times> 'w"
where
  "or_vs_step sfb b va i locals =
     (case locals of (evaluated, sb, vo) \<Rightarrow>
        and_then
          (if \<not> evaluated then
             and_then (lift (vector_at va i)) (\<lambda>x.
               if \<not> truthy x then and_then (sfb b) (\<lambda>y. return_val (True, y))
               else return_val (evaluated, sb))
           else return_val (evaluated, sb))
          (\<lambda>(evaluated', sb').
             and_then (lift (vector_at va i)) (\<lambda>x.
               and_then (lift (vector_at_put vo i (of_truth (truthy x \<or> truthy sb')))) (\<lambda>vo'.
                 return_val (evaluated', sb', vo')))))"

lemma or_vs_step_length:
  assumes "or_vs_step sfb b va i (evaluated, sb, vo) w = (Inr (evaluated', sb', vo'), w')"
  shows "length vo' = length vo"
  using assms
  by (auto simp: or_vs_step_def and_then_def lift_def return_val_def vector_at_put_def
           split: if_splits sum.splits prod.splits)

function or_vs_loop ::
  "('b, 'w) ScalarFunc \<Rightarrow> 'b \<Rightarrow> VectorType \<Rightarrow> nat \<Rightarrow> bool \<Rightarrow> ScalarType \<Rightarrow> VectorType \<Rightarrow>
   'w \<Rightarrow> (error + VectorType) \<times> 'w"
where
  "or_vs_loop sfb b va i evaluated sb vo w =
     (if i < length vo then
        (case or_vs_step sfb b va i (evaluated, sb, vo) w of
           (Inl e, w') \<Rightarrow> (Inl e, w')
         | (Inr (evaluated', sb', vo'), w') \<Rightarrow> or_vs_loop sfb b va (Suc i) evaluated' sb' vo' w')
      else (Inr vo, w))"
  by pat_completeness auto
termination
  by (relation "measure (\<lambda>(sfb, b, va, i, evaluated, sb, vo, w). length vo - i)")
     (auto dest!: or_vs_step_length [OF sym])

declare or_vs_loop.simps [simp del]

definition or_vs :: "('b, 'w) VectorFunc \<Rightarrow> ('b, 'w) ScalarFunc \<Rightarrow> ('b, 'w) VectorFunc" where
  "or_vs vfa sfb b =
     and_then (vfa b) (\<lambda>va. or_vs_loop sfb b va 0 False 0 (new_vector (length va)))"

text \<open>Vector or vector: \<^verbatim>\<open>va.at(i)||vb.at(i)\<close> reads the right element only when the left
  one is false.\<close>

definition elem_or_vv :: "VectorType \<Rightarrow> VectorType \<Rightarrow> nat \<Rightarrow> error + ScalarType" where
  "elem_or_vv va vb i =
     (case vector_at va i of
        Inl e \<Rightarrow> Inl e
      | Inr x \<Rightarrow>
          if truthy x then Inr (of_truth True)
          else (case vector_at vb i of Inl e \<Rightarrow> Inl e | Inr y \<Rightarrow> Inr (of_truth (truthy y))))"

definition or_vv :: "('b, 'w) VectorFunc \<Rightarrow> ('b, 'w) VectorFunc \<Rightarrow> ('b, 'w) VectorFunc" where
  "or_vv vfa vfb b =
     and_then (vfa b) (\<lambda>va. and_then (vfb b) (\<lambda>vb.
       lift (fill_loop (elem_or_vv va vb) 0
               (new_vector (if length va > length vb then length vb else length va)))))"

text \<open>The specialisation \<^verbatim>\<open>ApplyOp(sfa, vfa, sfb, vfb, logical_or<ScalarType>)\<close>.\<close>

definition ApplyOp_logical_or ::
  "('b, 'w) ScalarFunc option \<Rightarrow> ('b, 'w) VectorFunc option \<Rightarrow>
   ('b, 'w) ScalarFunc option \<Rightarrow> ('b, 'w) VectorFunc option \<Rightarrow>
   ('b, 'w) ScalarFunc option \<times> ('b, 'w) VectorFunc option"
where
  "ApplyOp_logical_or sfa vfa sfb vfb =
     (if sfa \<noteq> None \<and> sfb \<noteq> None then (Some (or_ss (the sfa) (the sfb)), None)
      else if sfa \<noteq> None \<and> vfb \<noteq> None then (None, Some (or_sv (the sfa) (the vfb)))
      else if vfa \<noteq> None \<and> sfb \<noteq> None then (None, Some (or_vs (the vfa) (the sfb)))
      else if vfa \<noteq> None \<and> vfb \<noteq> None then (None, Some (or_vv (the vfa) (the vfb)))
      else (None, None))"

subsection \<open>The class \<^verbatim>\<open>NamedFunc\<close>\<close>

text \<open>
  The members \<^verbatim>\<open>name_\<close>, \<^verbatim>\<open>scalar_func_\<close> and \<^verbatim>\<open>vector_func_\<close>; a prime
  stands for the trailing underscore.
\<close>

record ('b, 'w) NamedFunc =
  name' :: string
  scalar_func' :: "('b, 'w) ScalarFunc option"
  vector_func' :: "('b, 'w) VectorFunc option"

text \<open>
  Modelled from the spec: \<^verbatim>\<open>ReplaceAll\<close> of \<^verbatim>\<open>core/utilities\<close> is not among
  the sources. \<^verbatim>\<open>CleanName\<close> calls it as \<^verbatim>\<open>ReplaceAll(name_, " ", "")\<close>, which
  "strips spaces from the name": every space character is removed.
\<close>

definition ReplaceAll_spaces :: "string \<Rightarrow> string" where
  "ReplaceAll_spaces s = filter (\<lambda>c. c \<noteq> CHR '' '') s"

definition CleanName :: "('b, 'w) NamedFunc \<Rightarrow> ('b, 'w) NamedFunc" where
  "CleanName f = f\<lparr>name' := ReplaceAll_spaces (name' f)\<rparr>"

text \<open>The constructors from a name and a scalar function, and from a name and a vector
  function. The function is stored as it is given, empty or not.\<close>

definition NamedFunc_scalar :: "string \<Rightarrow> ('b, 'w) ScalarFunc option \<Rightarrow> ('b, 'w) NamedFunc" where
  "NamedFunc_scalar name function =
     CleanName \<lparr>name' = name, scalar_func' = function, vector_func' = None\<rparr>"

definition NamedFunc_vector :: "string \<Rightarrow> ('b, 'w) VectorFunc option \<Rightarrow> ('b, 'w) NamedFunc" where
  "NamedFunc_vector name function =
     CleanName \<lparr>name' = name, scalar_func' = None, vector_func' = function\<rparr>"

text \<open>
  The constructor from a constant. \<^verbatim>\<open>ToString\<close> of \<^verbatim>\<open>core/utilities\<close> is not
  among the sources and is a parameter; the name is not cleaned.
\<close>

definition NamedFunc_constant :: "(ScalarType \<Rightarrow> string) \<Rightarrow> ScalarType \<Rightarrow> ('b, 'w) NamedFunc" where
  "NamedFunc_constant ToString x =
     \<lparr>name' = ToString x, scalar_func' = Some (\<lambda>b. return_val x), vector_func' = None\<rparr>"

definition Name :: "('b, 'w) NamedFunc \<Rightarrow> string" where
  "Name f = name' f"

text \<open>The setter \<^verbatim>\<open>Name(const string &name)\<close>.\<close>

definition set_Name :: "('b, 'w) NamedFunc \<Rightarrow> string \<Rightarrow> ('b, 'w) NamedFunc" where
  "set_Name f name = CleanName (f\<lparr>name' := name\<rparr>)"

text \<open>The two setters \<^verbatim>\<open>Function(f)\<close>: an empty function leaves the object as it is.\<close>

definition Function_scalar :: "('b, 'w) NamedFunc \<Rightarrow> ('b, 'w) ScalarFunc option \<Rightarrow> ('b, 'w) NamedFunc" where
  "Function_scalar this f =
     (if f = None then this else this\<lparr>scalar_func' := f, vector_func' := None\<rparr>)"

definition Function_vector :: "('b, 'w) NamedFunc \<Rightarrow> ('b, 'w) VectorFunc option \<Rightarrow> ('b, 'w) NamedFunc" where
  "Function_vector this f =
     (if f = None then this else this\<lparr>scalar_func' := None, vector_func' := f\<rparr>)"

definition ScalarFunction :: "('b, 'w) NamedFunc \<Rightarrow> ('b, 'w) ScalarFunc option" where
  "ScalarFunction f = scalar_func' f"

definition VectorFunction :: "('b, 'w) NamedFunc \<Rightarrow> ('b, 'w) VectorFunc option" where
  "VectorFunction f = vector_func' f"

definition IsScalar :: "('b, 'w) NamedFunc \<Rightarrow> bool" where
  "IsScalar f = (scalar_func' f \<noteq> None)"

definition IsVector :: "('b, 'w) NamedFunc \<Rightarrow> bool" where
  "IsVector f = (vector_func' f \<noteq> None)"

definition GetScalar :: "('b, 'w) NamedFunc \<Rightarrow> 'b \<Rightarrow> 'w \<Rightarrow> (error + ScalarType) \<times> 'w" where
  "GetScalar f b = call (scalar_func' f) b"

definition GetVector :: "('b, 'w) NamedFunc \<Rightarrow> 'b \<Rightarrow> 'w \<Rightarrow> (error + VectorType) \<times> 'w" where
  "GetVector f b = call (vector_func' f) b"

subsection \<open>Compound assignment and binary arithmetic\<close>

text \<open>
  The function objects \<^verbatim>\<open>plus\<close>, \<^verbatim>\<open>minus\<close>, \<^verbatim>\<open>multiplies\<close>,
  \<^verbatim>\<open>divides\<close> and \<^verbatim>\<open>fmod\<close>. On the reals a division by zero has no infinite or
  NaN result to return; nothing below depends on that value. \<^verbatim>\<open>fmod\<close> keeps the sign
  of its first argument: the quotient is rounded towards zero.
\<close>

definition plus_op :: "ScalarType \<Rightarrow> ScalarType \<Rightarrow> ScalarType" where
  "plus_op x y = x + y"

definition minus_op :: "ScalarType \<Rightarrow> ScalarType \<Rightarrow> ScalarType" where
  "minus_op x y = x - y"

definition multiplies_op :: "ScalarType \<Rightarrow> ScalarType \<Rightarrow> ScalarType" where
  "multiplies_op x y = x * y"

definition divides_op :: "ScalarType \<Rightarrow> ScalarType \<Rightarrow> ScalarType" where
  "divides_op x y = x / y"

definition fmod :: "ScalarType \<Rightarrow> ScalarType \<Rightarrow> ScalarType" where
  "fmod x y = x - of_int (if 0 \<le> x / y then \<lfloor>x / y\<rfloor> else \<lceil>x / y\<rceil>) * y"

text \<open>
  The five compound assignments have one body, which differs in the symbol and the
  function object: the name is concatenated without cleaning, and both members are
  overwritten with the pair \<^verbatim>\<open>ApplyOp\<close> returns.
\<close>

definition compound_assignment ::
  "string \<Rightarrow> (ScalarType \<Rightarrow> ScalarType \<Rightarrow> ScalarType) \<Rightarrow> ('b, 'w) NamedFunc \<Rightarrow> ('b, 'w) NamedFunc \<Rightarrow> ('b, 'w) NamedFunc"
where
  "compound_assignment symbol op_c this func =
     (let name = ''('' @ name' this @ '')'' @ symbol @ ''('' @ name' func @ '')'';
          fp = ApplyOp (scalar_func' this) (vector_func' this) (scalar_func' func) (vector_func' func) op_c
      in \<lparr>name' = name, scalar_func' = fst fp, vector_func' = snd fp\<rparr>)"

definition operator_plus_assign :: "('b, 'w) NamedFunc \<Rightarrow> ('b, 'w) NamedFunc \<Rightarrow> ('b, 'w) NamedFunc" where
  "operator_plus_assign this func = compound_assignment ''+'' plus_op this func"

definition operator_minus_assign :: "('b, 'w) NamedFunc \<Rightarrow> ('b, 'w) NamedFunc \<Rightarrow> ('b, 'w) NamedFunc" where
  "operator_minus_assign this func = compound_assignment ''-'' minus_op this func"

definition operator_times_assign :: "('b, 'w) NamedFunc \<Rightarrow> ('b, 'w) NamedFunc \<Rightarrow> ('b, 'w) NamedFunc" where
  "operator_times_assign this func = compound_assignment ''*'' multiplies_op this func"

definition operator_divide_assign :: "('b, 'w) NamedFunc \<Rightarrow> ('b, 'w) NamedFunc \<Rightarrow> ('b, 'w) NamedFunc" where
  "operator_divide_assign this func = compound_assignment ''/'' divides_op this func"

definition operator_modulo_assign :: "('b, 'w) NamedFunc \<Rightarrow> ('b, 'w) NamedFunc \<Rightarrow> ('b, 'w) NamedFunc" where
  "operator_modulo_assign this func = compound_assignment ''%'' fmod this func"

text \<open>
  The free operators take both operands by value and return \<^verbatim>\<open>f+=g\<close> and so on: the
  compound assignment runs on the copy \<open>f\<close>, and the caller's object is not touched.
\<close>

definition operator_plus :: "('b, 'w) NamedFunc \<Rightarrow> ('b, 'w) NamedFunc \<Rightarrow> ('b, 'w) NamedFunc" where
  "operator_plus f g = operator_plus_assign f g"

definition operator_minus :: "('b, 'w) NamedFunc \<Rightarrow> ('b, 'w) NamedFunc \<Rightarrow> ('b, 'w) NamedFunc" where
  "operator_minus f g = operator_minus_assign f g"

definition operator_times :: "('b, 'w) NamedFunc \<Rightarrow> ('b, 'w) NamedFunc \<Rightarrow> ('b, 'w) NamedFunc" where
  "operator_times f g = operator_times_assign f g"

definition operator_divide :: "('b, 'w) NamedFunc \<Rightarrow> ('b, 'w) NamedFunc \<Rightarrow> ('b, 'w) NamedFunc" where
  "operator_divide f g = operator_divide_assign f g"

definition operator_modulo :: "('b, 'w) NamedFunc \<Rightarrow> ('b, 'w) NamedFunc \<Rightarrow> ('b, 'w) NamedFunc" where
  "operator_modulo f g = operator_modulo_assign f g"

subsection \<open>The indexing operator\<close>

text \<open>
  Modelled from the spec: the macro \<^verbatim>\<open>ERROR\<close> of \<^verbatim>\<open>core/utilities\<close> is not among
  the sources; indexing a scalar, or indexing with a vector, "fails with a
  ShapeMismatchError". The macro throws where it stands, so \<^verbatim>\<open>operator[]\<close> returns
  no object then.

  The closure is \<^verbatim>\<open>vec(b).at(index(b))\<close>: the vector is computed first, then the index,
  which is converted to \<^verbatim>\<open>size_t\<close>. Both functions are called as they were found, empty
  or not.
\<close>

definition index_closure ::
  "('b, 'w) VectorFunc option \<Rightarrow> ('b, 'w) ScalarFunc option \<Rightarrow> ('b, 'w) ScalarFunc"
where
  "index_closure vec index b =
     and_then (call vec b) (\<lambda>v.
       and_then (call index b) (\<lambda>x. lift (vector_at v (to_size_t x))))"

definition operator_index :: "('b, 'w) NamedFunc \<Rightarrow> ('b, 'w) NamedFunc \<Rightarrow> error + ('b, 'w) NamedFunc" where
  "operator_index this func =
     (if IsScalar this then Inl ShapeMismatchError
      else if IsVector func then Inl ShapeMismatchError
      else
        (let vec = VectorFunction this;
             index = ScalarFunction func
         in Inr (NamedFunc_scalar (''('' @ Name this @ '')['' @ Name func @ '']'')
                   (Some (index_closure vec index)))))"

subsection \<open>Unary operators\<close>

definition negate_op :: "ScalarType \<Rightarrow> ScalarType" where
  "negate_op x = - x"

definition logical_not_op :: "ScalarType \<Rightarrow> ScalarType" where
  "logical_not_op x = of_truth (\<not> truthy x)"

text \<open>Unary plus renames the copy and leaves its functions alone.\<close>

definition operator_unary_plus :: "('b, 'w) NamedFunc \<Rightarrow> ('b, 'w) NamedFunc" where
  "operator_unary_plus f = set_Name f (''+('' @ Name f @ '')'')"

text \<open>
  Unary minus and logical not: rename, then set the scalar function and then the vector
  function, each computed from what the object holds at that moment.
\<close>

definition operator_unary_minus :: "('b, 'w) NamedFunc \<Rightarrow> ('b, 'w) NamedFunc" where
  "operator_unary_minus f =
     (let f1 = set_Name f (''-('' @ Name f @ '')'');
          f2 = Function_scalar f1 (ApplyOp_scalar (ScalarFunction f1) negate_op);
          f3 = Function_vector f2 (ApplyOp_vector (VectorFunction f2) negate_op)
      in f3)"

definition operator_not :: "('b, 'w) NamedFunc \<Rightarrow> ('b, 'w) NamedFunc" where
  "operator_not f =
     (let f1 = set_Name f (''!('' @ Name f @ '')'');
          f2 = Function_scalar f1 (ApplyOp_scalar (ScalarFunction f1) logical_not_op);
          f3 = Function_vector f2 (ApplyOp_vector (VectorFunction f2) logical_not_op)
      in f3)"

subsection \<open>Comparisons and logical operators\<close>

text \<open>The comparison function objects return a \<^verbatim>\<open>bool\<close>, stored as a scalar.\<close>

definition equal_to_op :: "ScalarType \<Rightarrow> ScalarType \<Rightarrow> ScalarType" where
  "equal_to_op x y = of_truth (x = y)"

definition not_equal_to_op :: "ScalarType \<Rightarrow> ScalarType \<Rightarrow> ScalarType" where
  "not_equal_to_op x y = of_truth (x \<noteq> y)"

definition greater_op :: "ScalarType \<Rightarrow> ScalarType \<Rightarrow> ScalarType" where
  "greater_op x y = of_truth (x > y)"

definition less_op :: "ScalarType \<Rightarrow> ScalarType \<Rightarrow> ScalarType" where
  "less_op x y = of_truth (x < y)"

definition greater_equal_op :: "ScalarType \<Rightarrow> ScalarType \<Rightarrow> ScalarType" where
  "greater_equal_op x y = of_truth (x \<ge> y)"

definition less_equal_op :: "ScalarType \<Rightarrow> ScalarType \<Rightarrow> ScalarType" where
  "less_equal_op x y = of_truth (x \<le> y)"

text \<open>
  The six comparisons and the two logical operators have one body: rename the copy \<open>f\<close>
  through the setter, compute the pair of functions, and pass its two halves to the two
  setters \<^verbatim>\<open>Function\<close>. \<open>apply_op\<close> is \<^verbatim>\<open>ApplyOp\<close> with its function object.
\<close>

definition rename_and_set ::
  "string \<Rightarrow>
   (('b, 'w) ScalarFunc option \<Rightarrow> ('b, 'w) VectorFunc option \<Rightarrow>
    ('b, 'w) ScalarFunc option \<Rightarrow> ('b, 'w) VectorFunc option \<Rightarrow>
    ('b, 'w) ScalarFunc option \<times> ('b, 'w) VectorFunc option) \<Rightarrow>
   ('b, 'w) NamedFunc \<Rightarrow> ('b, 'w) NamedFunc \<Rightarrow> ('b, 'w) NamedFunc"
where
  "rename_and_set symbol apply_op f g =
     (let f1 = set_Name f (''('' @ Name f @ '')'' @ symbol @ ''('' @ Name g @ '')'');
          fp = apply_op (ScalarFunction f1) (VectorFunction f1) (ScalarFunction g) (VectorFunction g);
          f2 = Function_scalar f1 (fst fp);
          f3 = Function_vector f2 (snd fp)
      in f3)"

definition operator_equal :: "('b, 'w) NamedFunc \<Rightarrow> ('b, 'w) NamedFunc \<Rightarrow> ('b, 'w) NamedFunc" where
  "operator_equal f g = rename_and_set ''=='' (\<lambda>sfa vfa sfb vfb. ApplyOp sfa vfa sfb vfb equal_to_op) f g"

definition operator_not_equal :: "('b, 'w) NamedFunc \<Rightarrow> ('b, 'w) NamedFunc \<Rightarrow> ('b, 'w) NamedFunc" where
  "operator_not_equal f g = rename_and_set ''!='' (\<lambda>sfa vfa sfb vfb. ApplyOp sfa vfa sfb vfb not_equal_to_op) f g"

definition operator_greater :: "('b, 'w) NamedFunc \<Rightarrow> ('b, 'w) NamedFunc \<Rightarrow> ('b, 'w) NamedFunc" where
  "operator_greater f g = rename_and_set ''>'' (\<lambda>sfa vfa sfb vfb. ApplyOp sfa vfa sfb vfb greater_op) f g"

definition operator_less :: "('b, 'w) NamedFunc \<Rightarrow> ('b, 'w) NamedFunc \<Rightarrow> ('b, 'w) NamedFunc" where
  "operator_less f g = rename_and_set ''<'' (\<lambda>sfa vfa sfb vfb. ApplyOp sfa vfa sfb vfb less_op) f g"

definition operator_greater_equal :: "('b, 'w) NamedFunc \<Rightarrow> ('b, 'w) NamedFunc \<Rightarrow> ('b, 'w) NamedFunc" where
  "operator_greater_equal f g = rename_and_set ''>='' (\<lambda>sfa vfa sfb vfb. ApplyOp sfa vfa sfb vfb greater_equal_op) f g"

definition operator_less_equal :: "('b, 'w) NamedFunc \<Rightarrow> ('b, 'w) NamedFunc \<Rightarrow> ('b, 'w) NamedFunc" where
  "operator_less_equal f g = rename_and_set ''<='' (\<lambda>sfa vfa sfb vfb. ApplyOp sfa vfa sfb vfb less_equal_op) f g"

definition operator_and :: "('b, 'w) NamedFunc \<Rightarrow> ('b, 'w) NamedFunc \<Rightarrow> ('b, 'w) NamedFunc" where
  "operator_and f g = rename_and_set ''&&'' ApplyOp_logical_and f g"

definition operator_or :: "('b, 'w) NamedFunc \<Rightarrow> ('b, 'w) NamedFunc \<Rightarrow> ('b, 'w) NamedFunc" where
  "operator_or f g = rename_and_set ''||'' ApplyOp_logical_or f g"

subsection \<open>The operators by name\<close>

text \<open>
  The eleven operators that go through the generic \<^verbatim>\<open>ApplyOp\<close>, each with its symbol
  and its function object, so that a statement can range over all of them.
\<close>

datatype binary_operator =
  Add | Subtract | Multiply | Divide | Modulo | Equal | NotEqual | Greater | Less | GreaterEqual | LessEqual

fun symbol_of :: "binary_operator \<Rightarrow> string" where
  "symbol_of Add = ''+''"
| "symbol_of Subtract = ''-''"
| "symbol_of Multiply = ''*''"
| "symbol_of Divide = ''/''"
| "symbol_of Modulo = ''%''"
| "symbol_of Equal = ''==''"
| "symbol_of NotEqual = ''!=''"
| "symbol_of Greater = ''>''"
| "symbol_of Less = ''<''"
| "symbol_of GreaterEqual = ''>=''"
| "symbol_of LessEqual = ''<=''"

fun functor_of :: "binary_operator \<Rightarrow> ScalarType \<Rightarrow> ScalarType \<Rightarrow> ScalarType" where
  "functor_of Add = plus_op"
| "functor_of Subtract = minus_op"
| "functor_of Multiply = multiplies_op"
| "functor_of Divide = divides_op"
| "functor_of Modulo = fmod"
| "functor_of Equal = equal_to_op"
| "functor_of NotEqual = not_equal_to_op"
| "functor_of Greater = greater_op"
| "functor_of Less = less_op"
| "functor_of GreaterEqual = greater_equal_op"
| "functor_of LessEqual = less_equal_op"

fun binary :: "binary_operator \<Rightarrow> ('b, 'w) NamedFunc \<Rightarrow> ('b, 'w) NamedFunc \<Rightarrow> ('b, 'w) NamedFunc" where
  "binary Add f g = operator_plus f g"
| "binary Subtract f g = operator_minus f g"
| "binary Multiply f g = operator_times f g"
| "binary Divide f g = operator_divide f g"
| "binary Modulo f g = operator_modulo f g"
| "binary Equal f g = operator_equal f g"
| "binary NotEqual f g = operator_not_equal f g"
| "binary Greater f g = operator_greater f g"
| "binary Less f g = operator_less f g"
| "binary GreaterEqual f g = operator_greater_equal f g"
| "binary LessEqual f g = operator_less_equal f g"

text \<open>The invariant of the class: exactly one of the two functions is set.\<close>

definition exactly_one :: "('b, 'w) NamedFunc \<Rightarrow> bool" where
  "exactly_one f = (IsScalar f \<noteq> IsVector f)"

text \<open>
  Two objects are identical to an observer when they have the same name, the same shape
  and the same results on every record and in every state.
\<close>

definition identical :: "('b, 'w) NamedFunc \<Rightarrow> ('b, 'w) NamedFunc \<Rightarrow> bool" where
  "identical x y =
     (Name x = Name y \<and> IsScalar x = IsScalar y \<and> IsVector x = IsVector y \<and>
      (\<forall>b w. GetScalar x b w = GetScalar y b w \<and> GetVector x b w = GetVector y b w))"

subsection \<open>Example operands\<close>

text \<open>
  Operands for the examples below, over a record without content and a state that counts
  calls: each function returns a fixed value and adds one to the counter, so that the
  final state tells how many operand calls an evaluation made.
\<close>

definition counting_scalar :: "string \<Rightarrow> ScalarType \<Rightarrow> (unit, nat) NamedFunc" where
  "counting_scalar name x = NamedFunc_scalar name (Some (\<lambda>b w. (Inr x, Suc w)))"

definition counting_vector :: "string \<Rightarrow> VectorType \<Rightarrow> (unit, nat) NamedFunc" where
  "counting_vector name v = NamedFunc_vector name (Some (\<lambda>b w. (Inr v, Suc w)))"

section \<open>Properties\<close>

subsection \<open>\<^verbatim>\<open>HavePass\<close> on a list of vectors\<close>

text \<open>The inner loop returns whether the flag was set and every remaining vector is long
  enough and true at the index; the outer loop returns whether some index from \<open>ix\<close> on
  passes. Neither ever throws.\<close>

lemma HavePass_inner_result:
  "HavePass_inner vv ix iv this_pass =
     Inr (this_pass \<and> (\<forall>j. iv \<le> j \<and> j < length vv \<longrightarrow> ix < length (vv ! j) \<and> truthy (vv ! j ! ix)))"
proof (induction vv ix iv this_pass rule: HavePass_inner.induct)
  case (1 vv ix iv this_pass)
  let ?P = "\<lambda>j. ix < length (vv ! j) \<and> truthy (vv ! j ! ix)"
  show ?case
  proof (cases "this_pass \<and> iv < length vv")
    case False
    then show ?thesis by (subst HavePass_inner.simps) auto
  next
    case True
    then have at: "vector_at vv iv = Inr (vv ! iv)" by (simp add: vector_at_def)
    have split: "(\<forall>j. iv \<le> j \<and> j < length vv \<longrightarrow> ?P j) \<longleftrightarrow> (?P iv \<and> (\<forall>j. Suc iv \<le> j \<and> j < length vv \<longrightarrow> ?P j))"
      (is "?L \<longleftrightarrow> ?R")
    proof
      assume ?L with True show ?R by simp
    next
      assume r: ?R
      show ?L
      proof (intro allI impI)
        fix j assume "iv \<le> j \<and> j < length vv"
        then have "j = iv \<or> (Suc iv \<le> j \<and> j < length vv)" by arith
        with r show "?P j" by blast
      qed
    qed
    show ?thesis
    proof (cases "ix \<ge> length (vv ! iv)")
      case True
      have "HavePass_inner vv ix iv this_pass = HavePass_inner vv ix (Suc iv) False"
        using True \<open>this_pass \<and> iv < length vv\<close> at by (subst HavePass_inner.simps) simp
      also have "\<dots> = Inr False"
        using "1.IH"(1)[of "vv ! iv"] True \<open>this_pass \<and> iv < length vv\<close> at by simp
      finally show ?thesis using True split by simp
    next
      case False
      then have at2: "vector_at (vv ! iv) ix = Inr (vv ! iv ! ix)" by (simp add: vector_at_def)
      show ?thesis
      proof (cases "truthy (vv ! iv ! ix)")
        case True
        have "HavePass_inner vv ix iv this_pass = HavePass_inner vv ix (Suc iv) this_pass"
          using True False \<open>this_pass \<and> iv < length vv\<close> at at2 by (subst HavePass_inner.simps) simp
        also have "\<dots> = Inr (this_pass \<and> (\<forall>j. Suc iv \<le> j \<and> j < length vv \<longrightarrow> ?P j))"
          using "1.IH"(3)[of "vv ! iv" "vv ! iv ! ix"] True False \<open>this_pass \<and> iv < length vv\<close> at at2 by simp
        finally show ?thesis using True False split by simp
      next
        case nt: False
        have "HavePass_inner vv ix iv this_pass = HavePass_inner vv ix (Suc iv) False"
          using nt False \<open>this_pass \<and> iv < length vv\<close> at at2 by (subst HavePass_inner.simps) simp
        also have "\<dots> = Inr False"
          using "1.IH"(2)[of "vv ! iv" "vv ! iv ! ix"] nt False \<open>this_pass \<and> iv < length vv\<close> at at2 by simp
        finally show ?thesis using nt split by simp
      qed
    qed
  qed
qed


lemma HavePass_outer_result:
  assumes "vv \<noteq> []"
  shows "HavePass_outer vv ix =
           Inr (\<exists>k\<ge>ix. \<forall>j<length vv. k < length (vv ! j) \<and> truthy (vv ! j ! k))"
  using assms
proof (induction vv ix rule: HavePass_outer.induct)
  case (1 vv ix)
  let ?P = "\<lambda>k. \<forall>j<length vv. k < length (vv ! j) \<and> truthy (vv ! j ! k)"
  from "1.prems" have at: "vector_at vv 0 = Inr (vv ! 0)"
    by (simp add: vector_at_def)
  have inner: "HavePass_inner vv ix 0 True = Inr (?P ix)"
    by (simp add: HavePass_inner_result)
  show ?case
  proof (cases "ix < length (vv ! 0)")
    case False
    have "\<not> (\<exists>k\<ge>ix. ?P k)"
    proof
      assume "\<exists>k\<ge>ix. ?P k"
      then obtain k where k: "k \<ge> ix" "?P k" by blast
      from "1.prems" k(2) have "k < length (vv ! 0)" by simp
      with False k(1) show False by simp
    qed
    moreover have "HavePass_outer vv ix = Inr False"
      using False at by (subst HavePass_outer.simps) simp
    ultimately show ?thesis by simp
  next
    case True
    show ?thesis
    proof (cases "?P ix")
      case pass: True
      then have "\<exists>k\<ge>ix. ?P k" by blast
      moreover have "HavePass_outer vv ix = Inr True"
        using True at inner pass by (subst HavePass_outer.simps) simp
      ultimately show ?thesis by simp
    next
      case fail: False
      have step: "HavePass_outer vv ix = HavePass_outer vv (Suc ix)"
        using True at inner fail by (subst HavePass_outer.simps) simp
      have "HavePass_outer vv (Suc ix) = Inr (\<exists>k\<ge>Suc ix. ?P k)"
        using "1.IH" [of "vv ! 0" "?P ix"] at True inner fail "1.prems" by simp
      moreover have "(\<exists>k\<ge>ix. ?P k) \<longleftrightarrow> (\<exists>k\<ge>Suc ix. ?P k)"
      proof
        assume "\<exists>k\<ge>ix. ?P k"
        then obtain k where k: "k \<ge> ix" "?P k" by blast
        with fail have "k \<noteq> ix" by blast
        with k(1) have "Suc ix \<le> k" by simp
        with k(2) show "\<exists>k\<ge>Suc ix. ?P k" by blast
      next
        assume "\<exists>k\<ge>Suc ix. ?P k"
        then obtain k where "Suc ix \<le> k" "?P k" by blast
        then have "ix \<le> k \<and> ?P k" by simp
        then show "\<exists>k\<ge>ix. ?P k" by blast
      qed
      ultimately show ?thesis using step by simp
    qed
  qed
qed

text \<open>
  Claim C7. For every list of evaluated vectors \<open>vv\<close>, \<^verbatim>\<open>HavePass\<close> returns (without
  throwing) true if and only if the list is not empty and some index lies within the bounds
  of every vector of the list and every vector is true there; for the empty list it returns
  false.
\<close>

theorem HavePass_vv_correct:
  "HavePass_vv vv = Inr (vv \<noteq> [] \<and> (\<exists>ix. \<forall>v \<in> set vv. ix < length v \<and> truthy (v ! ix)))"
proof (cases "vv = []")
  case True
  then show ?thesis by (simp add: HavePass_vv_def)
next
  case False
  have "(\<exists>k\<ge>0. \<forall>j<length vv. k < length (vv ! j) \<and> truthy (vv ! j ! k))
        \<longleftrightarrow> (\<exists>ix. \<forall>v \<in> set vv. ix < length v \<and> truthy (v ! ix))"
    by (simp add: all_set_conv_all_nth)
  with False show ?thesis
    by (simp add: HavePass_vv_def HavePass_outer_result)
qed

theorem HavePass_vv_witness:
  "HavePass_vv [[1, 0, 1], [1, 1, 0]] = Inr True \<and> HavePass_vv [[0, 0], [1, 1]] = Inr False
   \<and> HavePass_vv [] = Inr False"
proof -
  have a: "\<exists>ix. \<forall>v \<in> set [[1, 0, 1], [1, 1, 0 :: real]]. ix < length v \<and> truthy (v ! ix)"
    by (rule exI [of _ 0]) (simp add: truthy_def)
  have b: "\<not> (\<exists>ix. \<forall>v \<in> set [[0, 0], [1, 1 :: real]]. ix < length v \<and> truthy (v ! ix))"
    by (auto simp: truthy_def less_Suc_eq)
  show ?thesis
    using a b HavePass_vv_correct [of "[[1, 0, 1], [1, 1, 0]]"] HavePass_vv_correct [of "[[0, 0], [1, 1]]"]
      HavePass_vv_correct [of "[]"]
    by simp
qed

subsection \<open>Facts about the example operands\<close>

lemma counting_scalar_funcs:
  "scalar_func' (counting_scalar name x) = Some (\<lambda>b w. (Inr x, Suc w))"
  "vector_func' (counting_scalar name x) = None"
  "exactly_one (counting_scalar name x)"
  by (simp_all add: counting_scalar_def NamedFunc_scalar_def CleanName_def exactly_one_def
        IsScalar_def IsVector_def)

lemma counting_vector_funcs:
  "vector_func' (counting_vector name v) = Some (\<lambda>b w. (Inr v, Suc w))"
  "scalar_func' (counting_vector name v) = None"
  "exactly_one (counting_vector name v)"
  by (simp_all add: counting_vector_def NamedFunc_vector_def CleanName_def exactly_one_def
        IsScalar_def IsVector_def)

subsection \<open>The generic binary operators\<close>

text \<open>The shared loop fills every position from \<open>i\<close> on and never throws when the
  right-hand side does not.\<close>

lemma fill_loop_result:
  assumes "\<And>j. i \<le> j \<Longrightarrow> j < length vo \<Longrightarrow> elem j = Inr (g j)"
  shows "fill_loop elem i vo = Inr (take i vo @ map g [i..<length vo])"
  using assms
proof (induction elem i vo rule: fill_loop.induct)
  case (1 elem i vo)
  show ?case
  proof (cases "i < length vo")
    case False
    then show ?thesis by (subst fill_loop.simps) simp
  next
    case True
    from "1.prems" True have e: "elem i = Inr (g i)" by simp
    from True have p: "vector_at_put vo i (g i) = Inr (vo[i := g i])"
      by (simp add: vector_at_put_def)
    have "fill_loop elem i vo = fill_loop elem (Suc i) (vo[i := g i])"
      using True e p by (subst fill_loop.simps) simp
    also have "\<dots> = Inr (take (Suc i) (vo[i := g i]) @ map g [Suc i..<length (vo[i := g i])])"
      using "1.IH" [OF True e p] "1.prems" by simp
    also have "take (Suc i) (vo[i := g i]) = take i vo @ [g i]"
      using True by (simp add: take_Suc_conv_app_nth)
    finally show ?thesis
      using True by (simp add: upt_conv_Cons)
  qed
qed

lemma fill_loop_from_start:
  assumes "\<And>j. j < n \<Longrightarrow> elem j = Inr (g j)"
  shows "fill_loop elem 0 (new_vector n) = Inr (map g [0..<n])"
  using fill_loop_result [of 0 "new_vector n" elem g] assms
  by (simp add: new_vector_def)

lemma closure_ss_result:
  assumes "sfa b w = (Inr a, w1)" and "sfb b w1 = (Inr c, w2)"
  shows "closure_ss op_c sfa sfb b w = (Inr (op_c a c), w2)"
  using assms by (simp add: closure_ss_def and_then_def return_val_def)

lemma closure_sv_result:
  assumes "sfa b w = (Inr a, w1)" and "vfb b w1 = (Inr vb, w2)"
  shows "closure_sv op_c sfa vfb b w = (Inr (map (op_c a) vb), w2)"
proof -
  have "fill_loop (elem_sv op_c a vb) 0 (new_vector (length vb))
          = Inr (map (\<lambda>j. op_c a (vb ! j)) [0..<length vb])"
    by (rule fill_loop_from_start [where g = "\<lambda>j. op_c a (vb ! j)"]) (simp add: elem_sv_def vector_at_def)
  also have "map (\<lambda>j. op_c a (vb ! j)) [0..<length vb] = map (op_c a) vb"
    by (rule nth_equalityI) simp_all
  finally show ?thesis
    using assms by (simp add: closure_sv_def and_then_def lift_def)
qed

lemma closure_vs_result:
  assumes "vfa b w = (Inr va, w1)" and "sfb b w1 = (Inr c, w2)"
  shows "closure_vs op_c vfa sfb b w = (Inr (map (\<lambda>x. op_c x c) va), w2)"
proof -
  have "fill_loop (elem_vs op_c va c) 0 (new_vector (length va))
          = Inr (map (\<lambda>j. op_c (va ! j) c) [0..<length va])"
    by (rule fill_loop_from_start [where g = "\<lambda>j. op_c (va ! j) c"]) (simp add: elem_vs_def vector_at_def)
  also have "map (\<lambda>j. op_c (va ! j) c) [0..<length va] = map (\<lambda>x. op_c x c) va"
    by (rule nth_equalityI) simp_all
  finally show ?thesis
    using assms by (simp add: closure_vs_def and_then_def lift_def)
qed

lemma min_length_if: "(if length va > length vb then length vb else length va) = min (length va) (length vb)"
  by simp

lemma closure_vv_result:
  assumes "vfa b w = (Inr va, w1)" and "vfb b w1 = (Inr vb, w2)"
  shows "closure_vv op_c vfa vfb b w = (Inr (map (\<lambda>(x, y). op_c x y) (zip va vb)), w2)"
proof -
  let ?n = "if length va > length vb then length vb else length va"
  have "fill_loop (elem_vv op_c va vb) 0 (new_vector ?n)
          = Inr (map (\<lambda>j. op_c (va ! j) (vb ! j)) [0..<?n])"
    by (rule fill_loop_from_start [where g = "\<lambda>j. op_c (va ! j) (vb ! j)"])
       (simp add: elem_vv_def vector_at_def split: if_splits)
  also have "map (\<lambda>j. op_c (va ! j) (vb ! j)) [0..<?n] = map (\<lambda>(x, y). op_c x y) (zip va vb)"
    by (rule nth_equalityI) (auto split: if_splits)
  finally show ?thesis
    using assms by (simp add: closure_vv_def and_then_def lift_def)
qed


lemma ApplyOp_ss:
  "ApplyOp (Some sfa) vfa (Some sfb) vfb op_c = (Some (closure_ss op_c sfa sfb), None)"
  by (simp add: ApplyOp_def)

lemma ApplyOp_sv:
  "ApplyOp (Some sfa) vfa None (Some vfb) op_c = (None, Some (closure_sv op_c sfa vfb))"
  by (simp add: ApplyOp_def)

lemma ApplyOp_vs:
  "ApplyOp None (Some vfa) (Some sfb) vfb op_c = (None, Some (closure_vs op_c vfa sfb))"
  by (simp add: ApplyOp_def)

lemma ApplyOp_vv:
  "ApplyOp None (Some vfa) None (Some vfb) op_c = (None, Some (closure_vv op_c vfa vfb))"
  by (simp add: ApplyOp_def)

lemma ApplyOp_exactly_one:
  assumes "(sfa = None) \<noteq> (vfa = None)" and "(sfb = None) \<noteq> (vfb = None)"
  shows "(fst (ApplyOp sfa vfa sfb vfb op_c) = None) \<noteq> (snd (ApplyOp sfa vfa sfb vfb op_c) = None)"
  using assms by (auto simp: ApplyOp_def)

lemma compound_assignment_funcs:
  "scalar_func' (compound_assignment symbol op_c f g)
     = fst (ApplyOp (scalar_func' f) (vector_func' f) (scalar_func' g) (vector_func' g) op_c)"
  "vector_func' (compound_assignment symbol op_c f g)
     = snd (ApplyOp (scalar_func' f) (vector_func' f) (scalar_func' g) (vector_func' g) op_c)"
  by (simp_all add: compound_assignment_def Let_def)

lemma rename_and_set_funcs:
  assumes "(fst (apply_op (scalar_func' f) (vector_func' f) (scalar_func' g) (vector_func' g)) = None)
           \<noteq> (snd (apply_op (scalar_func' f) (vector_func' f) (scalar_func' g) (vector_func' g)) = None)"
  shows "scalar_func' (rename_and_set symbol apply_op f g)
           = fst (apply_op (scalar_func' f) (vector_func' f) (scalar_func' g) (vector_func' g))"
    and "vector_func' (rename_and_set symbol apply_op f g)
           = snd (apply_op (scalar_func' f) (vector_func' f) (scalar_func' g) (vector_func' g))"
  using assms
  by (auto simp: rename_and_set_def Let_def set_Name_def CleanName_def ScalarFunction_def
        VectorFunction_def Function_scalar_def Function_vector_def)

lemma comparison_funcs:
  assumes "exactly_one A" and "exactly_one B"
  shows "scalar_func' (rename_and_set symbol (\<lambda>sfa vfa sfb vfb. ApplyOp sfa vfa sfb vfb op_c) A B)
           = fst (ApplyOp (scalar_func' A) (vector_func' A) (scalar_func' B) (vector_func' B) op_c)"
    and "vector_func' (rename_and_set symbol (\<lambda>sfa vfa sfb vfb. ApplyOp sfa vfa sfb vfb op_c) A B)
           = snd (ApplyOp (scalar_func' A) (vector_func' A) (scalar_func' B) (vector_func' B) op_c)"
proof -
  have one: "(fst (ApplyOp (scalar_func' A) (vector_func' A) (scalar_func' B) (vector_func' B) op_c) = None)
          \<noteq> (snd (ApplyOp (scalar_func' A) (vector_func' A) (scalar_func' B) (vector_func' B) op_c) = None)"
    using assms by (intro ApplyOp_exactly_one) (auto simp: exactly_one_def IsScalar_def IsVector_def)
  show "scalar_func' (rename_and_set symbol (\<lambda>sfa vfa sfb vfb. ApplyOp sfa vfa sfb vfb op_c) A B)
           = fst (ApplyOp (scalar_func' A) (vector_func' A) (scalar_func' B) (vector_func' B) op_c)"
    using rename_and_set_funcs(1)
      [where apply_op = "\<lambda>sfa vfa sfb vfb. ApplyOp sfa vfa sfb vfb op_c" and f = A and g = B] one
    by simp
  show "vector_func' (rename_and_set symbol (\<lambda>sfa vfa sfb vfb. ApplyOp sfa vfa sfb vfb op_c) A B)
           = snd (ApplyOp (scalar_func' A) (vector_func' A) (scalar_func' B) (vector_func' B) op_c)"
    using rename_and_set_funcs(2)
      [where apply_op = "\<lambda>sfa vfa sfb vfb. ApplyOp sfa vfa sfb vfb op_c" and f = A and g = B] one
    by simp
qed

lemmas binary_operator_defs =
  operator_plus_def operator_minus_def operator_times_def operator_divide_def
  operator_modulo_def operator_plus_assign_def operator_minus_assign_def
  operator_times_assign_def operator_divide_assign_def operator_modulo_assign_def
  operator_equal_def operator_not_equal_def operator_greater_def
  operator_less_def operator_greater_equal_def operator_less_equal_def

lemma binary_funcs:
  assumes "exactly_one A" and "exactly_one B"
  shows "scalar_func' (binary bop A B)
           = fst (ApplyOp (scalar_func' A) (vector_func' A) (scalar_func' B) (vector_func' B) (functor_of bop))"
    and "vector_func' (binary bop A B)
           = snd (ApplyOp (scalar_func' A) (vector_func' A) (scalar_func' B) (vector_func' B) (functor_of bop))"
  by (cases bop; simp add: binary_operator_defs compound_assignment_funcs comparison_funcs [OF assms])+

text \<open>
  Claim C1. For every operator among \<open>+\<close>, \<open>-\<close>, \<open>*\<close>, \<open>/\<close>, \<open>%\<close> and the six
  comparisons, and operands \<open>A\<close> and \<open>B\<close> that each hold exactly one function, the
  result follows the shape table on every record on which the operands return: two
  scalars give the scalar \<open>op a c\<close>; a scalar and a vector give a vector as long as the
  right operand's, with \<open>op a (vb ! i)\<close> at \<open>i\<close>; a vector and a scalar give a vector as
  long as the left operand's, with \<open>op (va ! i) c\<close> at \<open>i\<close>; two vectors give a vector
  of the smaller of the two lengths, with \<open>op (va ! i) (vb ! i)\<close> at \<open>i\<close>. No case
  throws.
\<close>

theorem binary_shape_table:
  fixes A B :: "('b, 'w) NamedFunc"
  assumes "exactly_one A" and "exactly_one B"
  shows
    "(scalar_func' A = Some sfa \<and> scalar_func' B = Some sfb \<longrightarrow>
        IsScalar (binary bop A B) \<and> \<not> IsVector (binary bop A B) \<and>
        (sfa b w = (Inr a, w1) \<and> sfb b w1 = (Inr c, w2) \<longrightarrow>
           GetScalar (binary bop A B) b w = (Inr (functor_of bop a c), w2)))
   \<and> (scalar_func' A = Some sfa \<and> vector_func' B = Some vfb \<longrightarrow>
        IsVector (binary bop A B) \<and> \<not> IsScalar (binary bop A B) \<and>
        (sfa b w = (Inr a, w1) \<and> vfb b w1 = (Inr vb, w2) \<longrightarrow>
           (\<exists>vo. GetVector (binary bop A B) b w = (Inr vo, w2) \<and> length vo = length vb \<and>
                 (\<forall>i<length vb. vo ! i = functor_of bop a (vb ! i)))))
   \<and> (vector_func' A = Some vfa \<and> scalar_func' B = Some sfb \<longrightarrow>
        IsVector (binary bop A B) \<and> \<not> IsScalar (binary bop A B) \<and>
        (vfa b w = (Inr va, w1) \<and> sfb b w1 = (Inr c, w2) \<longrightarrow>
           (\<exists>vo. GetVector (binary bop A B) b w = (Inr vo, w2) \<and> length vo = length va \<and>
                 (\<forall>i<length va. vo ! i = functor_of bop (va ! i) c))))
   \<and> (vector_func' A = Some vfa \<and> vector_func' B = Some vfb \<longrightarrow>
        IsVector (binary bop A B) \<and> \<not> IsScalar (binary bop A B) \<and>
        (vfa b w = (Inr va, w1) \<and> vfb b w1 = (Inr vb, w2) \<longrightarrow>
           (\<exists>vo. GetVector (binary bop A B) b w = (Inr vo, w2) \<and>
                 length vo = min (length va) (length vb) \<and>
                 (\<forall>i<min (length va) (length vb). vo ! i = functor_of bop (va ! i) (vb ! i)))))"
proof (intro conjI impI)
  note funcs = binary_funcs [OF assms, of bop]
  note shape = IsScalar_def IsVector_def GetScalar_def GetVector_def call_def
  {
    assume h: "scalar_func' A = Some sfa \<and> scalar_func' B = Some sfb"
    then have r: "scalar_func' (binary bop A B) = Some (closure_ss (functor_of bop) sfa sfb)"
                 "vector_func' (binary bop A B) = None"
      using funcs by (simp_all add: ApplyOp_ss)
    from r show "IsScalar (binary bop A B)" by (simp add: shape)
    from r show "\<not> IsVector (binary bop A B)" by (simp add: shape)
    assume "sfa b w = (Inr a, w1) \<and> sfb b w1 = (Inr c, w2)"
    then show "GetScalar (binary bop A B) b w = (Inr (functor_of bop a c), w2)"
      using r by (simp add: shape closure_ss_result)
  }
  {
    assume h: "scalar_func' A = Some sfa \<and> vector_func' B = Some vfb"
    with assms have "scalar_func' B = None"
      by (auto simp: exactly_one_def shape)
    with h have r: "vector_func' (binary bop A B) = Some (closure_sv (functor_of bop) sfa vfb)"
                 "scalar_func' (binary bop A B) = None"
      using funcs by (simp_all add: ApplyOp_sv)
    from r show "IsVector (binary bop A B)" by (simp add: shape)
    from r show "\<not> IsScalar (binary bop A B)" by (simp add: shape)
    assume "sfa b w = (Inr a, w1) \<and> vfb b w1 = (Inr vb, w2)"
    then have "GetVector (binary bop A B) b w = (Inr (map (functor_of bop a) vb), w2)"
      using r by (simp add: shape closure_sv_result)
    then show "\<exists>vo. GetVector (binary bop A B) b w = (Inr vo, w2) \<and> length vo = length vb \<and>
                 (\<forall>i<length vb. vo ! i = functor_of bop a (vb ! i))"
      by simp
  }
  {
    assume h: "vector_func' A = Some vfa \<and> scalar_func' B = Some sfb"
    with assms have "scalar_func' A = None"
      by (auto simp: exactly_one_def shape)
    with h have r: "vector_func' (binary bop A B) = Some (closure_vs (functor_of bop) vfa sfb)"
                 "scalar_func' (binary bop A B) = None"
      using funcs by (simp_all add: ApplyOp_vs)
    from r show "IsVector (binary bop A B)" by (simp add: shape)
    from r show "\<not> IsScalar (binary bop A B)" by (simp add: shape)
    assume "vfa b w = (Inr va, w1) \<and> sfb b w1 = (Inr c, w2)"
    then have "GetVector (binary bop A B) b w = (Inr (map (\<lambda>x. functor_of bop x c) va), w2)"
      using r by (simp add: shape closure_vs_result)
    then show "\<exists>vo. GetVector (binary bop A B) b w = (Inr vo, w2) \<and> length vo = length va \<and>
                 (\<forall>i<length va. vo ! i = functor_of bop (va ! i) c)"
      by simp
  }
  {
    assume h: "vector_func' A = Some vfa \<and> vector_func' B = Some vfb"
    with assms have "scalar_func' A = None" "scalar_func' B = None"
      by (auto simp: exactly_one_def shape)
    with h have r: "vector_func' (binary bop A B) = Some (closure_vv (functor_of bop) vfa vfb)"
                 "scalar_func' (binary bop A B) = None"
      using funcs by (simp_all add: ApplyOp_vv)
    from r show "IsVector (binary bop A B)" by (simp add: shape)
    from r show "\<not> IsScalar (binary bop A B)" by (simp add: shape)
    assume "vfa b w = (Inr va, w1) \<and> vfb b w1 = (Inr vb, w2)"
    then have "GetVector (binary bop A B) b w
                 = (Inr (map (\<lambda>(x, y). functor_of bop x y) (zip va vb)), w2)"
      using r by (simp add: shape closure_vv_result)
    then show "\<exists>vo. GetVector (binary bop A B) b w = (Inr vo, w2) \<and>
                 length vo = min (length va) (length vb) \<and>
                 (\<forall>i<min (length va) (length vb). vo ! i = functor_of bop (va ! i) (vb ! i))"
      by simp
  }
qed


theorem binary_shape_table_witness:
  "GetScalar (binary Add (counting_scalar ''x'' 10) (counting_scalar ''y'' 3)) () 0 = (Inr 13, 2)
   \<and> (\<exists>vo. GetVector (binary Multiply (counting_scalar ''x'' 10) (counting_vector ''v'' [1, 2])) () 0
               = (Inr vo, 2) \<and> length vo = 2 \<and> vo ! 0 = 10 \<and> vo ! 1 = 20)
   \<and> (\<exists>vo. GetVector (binary Greater (counting_vector ''v'' [1, 5]) (counting_scalar ''y'' 3)) () 0
               = (Inr vo, 2) \<and> length vo = 2 \<and> vo ! 0 = 0 \<and> vo ! 1 = 1)
   \<and> (\<exists>vo. GetVector (binary Subtract (counting_vector ''u'' [1, 5, 7]) (counting_vector ''v'' [1, 2])) () 0
               = (Inr vo, 2) \<and> length vo = 2 \<and> vo ! 0 = 0 \<and> vo ! 1 = 3)"
proof (intro conjI)
  show "GetScalar (binary Add (counting_scalar ''x'' 10) (counting_scalar ''y'' 3)) () 0 = (Inr 13, 2)"
    using binary_shape_table
      [where A = "counting_scalar ''x'' 10" and B = "counting_scalar ''y'' 3" and bop = Add
         and sfa = "\<lambda>b w. (Inr 10, Suc w)" and sfb = "\<lambda>b w. (Inr 3, Suc w)"
         and b = "()" and w = 0 and a = 10 and ?w1.0 = 1 and c = 3 and ?w2.0 = 2]
    by (simp add: counting_scalar_funcs plus_op_def)
  show "\<exists>vo. GetVector (binary Multiply (counting_scalar ''x'' 10) (counting_vector ''v'' [1, 2])) () 0
               = (Inr vo, 2) \<and> length vo = 2 \<and> vo ! 0 = 10 \<and> vo ! 1 = 20"
    using binary_shape_table
      [where A = "counting_scalar ''x'' 10" and B = "counting_vector ''v'' [1, 2]" and bop = Multiply
         and sfa = "\<lambda>b w. (Inr 10, Suc w)" and vfb = "\<lambda>b w. (Inr [1, 2], Suc w)"
         and b = "()" and w = 0 and a = 10 and ?w1.0 = 1 and vb = "[1, 2]" and ?w2.0 = 2]
    by (auto simp add: counting_scalar_funcs counting_vector_funcs multiplies_op_def All_less_Suc)
  show "\<exists>vo. GetVector (binary Greater (counting_vector ''v'' [1, 5]) (counting_scalar ''y'' 3)) () 0
               = (Inr vo, 2) \<and> length vo = 2 \<and> vo ! 0 = 0 \<and> vo ! 1 = 1"
    using binary_shape_table
      [where A = "counting_vector ''v'' [1, 5]" and B = "counting_scalar ''y'' 3" and bop = Greater
         and vfa = "\<lambda>b w. (Inr [1, 5], Suc w)" and sfb = "\<lambda>b w. (Inr 3, Suc w)"
         and b = "()" and w = 0 and va = "[1, 5]" and ?w1.0 = 1 and c = 3 and ?w2.0 = 2]
    by (auto simp add: counting_scalar_funcs counting_vector_funcs greater_op_def of_truth_def All_less_Suc)
  show "\<exists>vo. GetVector (binary Subtract (counting_vector ''u'' [1, 5, 7]) (counting_vector ''v'' [1, 2])) () 0
               = (Inr vo, 2) \<and> length vo = 2 \<and> vo ! 0 = 0 \<and> vo ! 1 = 3"
    using binary_shape_table
      [where A = "counting_vector ''u'' [1, 5, 7]" and B = "counting_vector ''v'' [1, 2]" and bop = Subtract
         and vfa = "\<lambda>b w. (Inr [1, 5, 7], Suc w)" and vfb = "\<lambda>b w. (Inr [1, 2], Suc w)"
         and b = "()" and w = 0 and va = "[1, 5, 7]" and ?w1.0 = 1 and vb = "[1, 2]" and ?w2.0 = 2]
    by (auto simp add: counting_scalar_funcs counting_vector_funcs minus_op_def All_less_Suc)
qed

subsection \<open>The logical operators\<close>

text \<open>Which closure the two specialisations choose, and what the operators store.\<close>

lemma ApplyOp_logical_and_sv:
  "ApplyOp_logical_and (Some sfa) vfa None (Some vfb) = (None, Some (and_sv sfa vfb))"
  by (simp add: ApplyOp_logical_and_def)

lemma ApplyOp_logical_or_sv:
  "ApplyOp_logical_or (Some sfa) vfa None (Some vfb) = (None, Some (or_sv sfa vfb))"
  by (simp add: ApplyOp_logical_or_def)

lemma ApplyOp_logical_and_vs:
  "ApplyOp_logical_and None (Some vfa) (Some sfb) vfb = (None, Some (and_vs vfa sfb))"
  by (simp add: ApplyOp_logical_and_def)

lemma ApplyOp_logical_or_vs:
  "ApplyOp_logical_or None (Some vfa) (Some sfb) vfb = (None, Some (or_vs vfa sfb))"
  by (simp add: ApplyOp_logical_or_def)

lemma ApplyOp_logical_and_exactly_one:
  assumes "(sfa = None) \<noteq> (vfa = None)" and "(sfb = None) \<noteq> (vfb = None)"
  shows "(fst (ApplyOp_logical_and sfa vfa sfb vfb) = None) \<noteq> (snd (ApplyOp_logical_and sfa vfa sfb vfb) = None)"
  using assms by (auto simp: ApplyOp_logical_and_def)

lemma ApplyOp_logical_or_exactly_one:
  assumes "(sfa = None) \<noteq> (vfa = None)" and "(sfb = None) \<noteq> (vfb = None)"
  shows "(fst (ApplyOp_logical_or sfa vfa sfb vfb) = None) \<noteq> (snd (ApplyOp_logical_or sfa vfa sfb vfb) = None)"
  using assms by (auto simp: ApplyOp_logical_or_def)

lemma exactly_one_funcs: "exactly_one f \<longleftrightarrow> (scalar_func' f = None) \<noteq> (vector_func' f = None)"
  by (auto simp: exactly_one_def IsScalar_def IsVector_def)

lemma operator_and_funcs:
  assumes "exactly_one A" and "exactly_one B"
  shows "scalar_func' (operator_and A B)
           = fst (ApplyOp_logical_and (scalar_func' A) (vector_func' A) (scalar_func' B) (vector_func' B))"
    and "vector_func' (operator_and A B)
           = snd (ApplyOp_logical_and (scalar_func' A) (vector_func' A) (scalar_func' B) (vector_func' B))"
  using assms
    rename_and_set_funcs [where apply_op = ApplyOp_logical_and and f = A and g = B and symbol = "''&&''"]
    ApplyOp_logical_and_exactly_one [of "scalar_func' A" "vector_func' A" "scalar_func' B" "vector_func' B"]
  by (simp_all add: operator_and_def exactly_one_funcs)

lemma operator_or_funcs:
  assumes "exactly_one A" and "exactly_one B"
  shows "scalar_func' (operator_or A B)
           = fst (ApplyOp_logical_or (scalar_func' A) (vector_func' A) (scalar_func' B) (vector_func' B))"
    and "vector_func' (operator_or A B)
           = snd (ApplyOp_logical_or (scalar_func' A) (vector_func' A) (scalar_func' B) (vector_func' B))"
  using assms
    rename_and_set_funcs [where apply_op = ApplyOp_logical_or and f = A and g = B and symbol = "''||''"]
    ApplyOp_logical_or_exactly_one [of "scalar_func' A" "vector_func' A" "scalar_func' B" "vector_func' B"]
  by (simp_all add: operator_or_def exactly_one_funcs)

lemma and_sv_result:
  assumes "sfa b w = (Inr a, w1)" and "vfb b w1 = (Inr vb, w2)"
  shows "and_sv sfa vfb b w = (Inr (if truthy a then vb else replicate (length vb) 0), w2)"
  using assms by (simp add: and_sv_def and_then_def return_val_def of_truth_def)

lemma or_sv_result:
  assumes "sfa b w = (Inr a, w1)" and "vfb b w1 = (Inr vb, w2)"
  shows "or_sv sfa vfb b w = (Inr (if truthy a then replicate (length vb) 1 else vb), w2)"
  using assms by (simp add: or_sv_def and_then_def return_val_def of_truth_def)

text \<open>
  Claim C2 as stated requires that a false scalar left operand of \<open>&&\<close> keeps the vector
  right operand from being called at all, and a true one of \<open>||\<close> likewise. The
  closures call it for its size: with a right operand that counts its calls, the evaluation
  ends with two operand calls counted, where the left operand alone makes one.
\<close>

theorem and_scalar_vector_calls_right_operand:
  "GetScalar (counting_scalar ''a'' 0) () 0 = (Inr 0, 1)
   \<and> GetVector (operator_and (counting_scalar ''a'' 0) (counting_vector ''b'' [3, 4])) () 0 = (Inr [0, 0], 2)
   \<and> GetScalar (counting_scalar ''a'' 5) () 0 = (Inr 5, 1)
   \<and> GetVector (operator_or (counting_scalar ''a'' 5) (counting_vector ''b'' [3, 4])) () 0 = (Inr [1, 1], 2)"
  using operator_and_funcs(2) [of "counting_scalar ''a'' 0" "counting_vector ''b'' [3, 4]"]
    operator_or_funcs(2) [of "counting_scalar ''a'' 5" "counting_vector ''b'' [3, 4]"]
  by (simp add: counting_scalar_funcs counting_vector_funcs ApplyOp_logical_and_sv
        ApplyOp_logical_or_sv GetScalar_def GetVector_def call_def and_sv_def or_sv_def
        and_then_def return_val_def truthy_def of_truth_def numeral_2_eq_2)

text \<open>
  Claim C2, amended. For a scalar \<open>A\<close> and a vector \<open>B\<close>, on every record on which both
  return, \<open>A && B\<close> and \<open>A || B\<close> call \<open>A\<close> and then \<open>B\<close>, each exactly once. When
  \<open>A\<close> is false, \<open>A && B\<close> is a vector of zeros as long as \<open>B\<close>'s result and
  \<open>A || B\<close> is \<open>B\<close>'s result; when \<open>A\<close> is true, \<open>A && B\<close> is \<open>B\<close>'s result and
  \<open>A || B\<close> is a vector of ones as long as \<open>B\<close>'s result.
\<close>

theorem logical_scalar_vector:
  fixes A B :: "('b, 'w) NamedFunc"
  assumes "exactly_one A" and "exactly_one B"
    and "scalar_func' A = Some sfa" and "vector_func' B = Some vfb"
    and "sfa b w = (Inr a, w1)" and "vfb b w1 = (Inr vb, w2)"
  shows "GetVector (operator_and A B) b w
           = (Inr (if truthy a then vb else replicate (length vb) 0), w2)
       \<and> GetVector (operator_or A B) b w
           = (Inr (if truthy a then replicate (length vb) 1 else vb), w2)"
proof -
  from assms(2,4) have "scalar_func' B = None"
    by (simp add: exactly_one_funcs)
  with assms(3,4)
  have "vector_func' (operator_and A B) = Some (and_sv sfa vfb)"
    and "vector_func' (operator_or A B) = Some (or_sv sfa vfb)"
    by (simp_all add: operator_and_funcs [OF assms(1,2)] operator_or_funcs [OF assms(1,2)]
          ApplyOp_logical_and_sv ApplyOp_logical_or_sv)
  moreover have "and_sv sfa vfb b w = (Inr (if truthy a then vb else replicate (length vb) 0), w2)"
    using assms(5,6) by (rule and_sv_result)
  moreover have "or_sv sfa vfb b w = (Inr (if truthy a then replicate (length vb) 1 else vb), w2)"
    using assms(5,6) by (rule or_sv_result)
  ultimately show ?thesis
    by (simp add: GetVector_def call_def)
qed

theorem logical_scalar_vector_witness:
  "GetVector (operator_and (counting_scalar ''a'' 0) (counting_vector ''b'' [3, 4])) () 0 = (Inr [0, 0], 2)
   \<and> GetVector (operator_or (counting_scalar ''a'' 0) (counting_vector ''b'' [3, 4])) () 0 = (Inr [3, 4], 2)
   \<and> GetVector (operator_and (counting_scalar ''a'' 5) (counting_vector ''b'' [3, 4])) () 0 = (Inr [3, 4], 2)
   \<and> GetVector (operator_or (counting_scalar ''a'' 5) (counting_vector ''b'' [3, 4])) () 0 = (Inr [1, 1], 2)"
  using
    logical_scalar_vector [of "counting_scalar ''a'' 0" "counting_vector ''b'' [3, 4]"
      "\<lambda>b w. (Inr 0, Suc w)" "\<lambda>b w. (Inr [3, 4], Suc w)" "()" 0 0 1 "[3, 4]" 2]
    logical_scalar_vector [of "counting_scalar ''a'' 5" "counting_vector ''b'' [3, 4]"
      "\<lambda>b w. (Inr 5, Suc w)" "\<lambda>b w. (Inr [3, 4], Suc w)" "()" 0 5 1 "[3, 4]" 2]
  by (simp add: counting_scalar_funcs counting_vector_funcs truthy_def numeral_2_eq_2)

subsection \<open>The lazy loops of vector \<open>&&\<close> scalar and vector \<open>||\<close> scalar\<close>

text \<open>
  One pass of the body in its three situations; then the loop from index \<open>i\<close> on: once
  the right operand has been evaluated, before that when no remaining element asks for it,
  and before that when some remaining element does.
\<close>

lemma and_vs_step_evaluated:
  assumes "i < length vo" and "i < length va"
  shows "and_vs_step sfb b va i (True, sb, vo) w
           = (Inr (True, sb, vo[i := of_truth (truthy (va ! i) \<and> truthy sb)]), w)"
  using assms
  by (simp add: and_vs_step_def and_then_def lift_def return_val_def vector_at_def vector_at_put_def)

lemma and_vs_step_skip:
  assumes "i < length vo" and "i < length va" and "\<not> truthy (va ! i)"
  shows "and_vs_step sfb b va i (False, sb, vo) w = (Inr (False, sb, vo[i := 0]), w)"
  using assms
  by (simp add: and_vs_step_def and_then_def lift_def return_val_def vector_at_def vector_at_put_def
        of_truth_def)

lemma and_vs_step_first:
  assumes "i < length vo" and "i < length va" and "truthy (va ! i)" and "sfb b w = (Inr c, w')"
  shows "and_vs_step sfb b va i (False, sb, vo) w = (Inr (True, c, vo[i := of_truth (truthy c)]), w')"
  using assms
  by (simp add: and_vs_step_def and_then_def lift_def return_val_def vector_at_def vector_at_put_def)

lemma take_Suc_update: "i < length vo \<Longrightarrow> take (Suc i) (vo[i := x]) = take i vo @ [x]"
  by (simp add: take_Suc_conv_app_nth)

lemma and_vs_loop_evaluated:
  assumes "length vo \<le> length va"
  shows "and_vs_loop sfb b va i True sb vo w
           = (Inr (take i vo @ map (\<lambda>j. of_truth (truthy (va ! j) \<and> truthy sb)) [i..<length vo]), w)"
  using assms
proof (induction "length vo - i" arbitrary: i vo)
  case 0
  then show ?case by (subst and_vs_loop.simps) simp
next
  case (Suc n)
  then have i: "i < length vo" "i < length va" by simp_all
  let ?x = "of_truth (truthy (va ! i) \<and> truthy sb)"
  have "and_vs_loop sfb b va i True sb vo w = and_vs_loop sfb b va (Suc i) True sb (vo[i := ?x]) w"
    using i by (subst and_vs_loop.simps) (simp add: and_vs_step_evaluated)
  also have "\<dots> = (Inr (take (Suc i) (vo[i := ?x])
                       @ map (\<lambda>j. of_truth (truthy (va ! j) \<and> truthy sb)) [Suc i..<length (vo[i := ?x])]), w)"
    using Suc.hyps(2) Suc.prems by (intro Suc.hyps(1)) simp_all
  finally show ?case
    using i by (simp add: take_Suc_update upt_conv_Cons)
qed

lemma and_vs_loop_none:
  assumes "length vo \<le> length va" and "\<And>j. i \<le> j \<Longrightarrow> j < length vo \<Longrightarrow> \<not> truthy (va ! j)"
  shows "and_vs_loop sfb b va i False sb vo w = (Inr (take i vo @ replicate (length vo - i) 0), w)"
  using assms
proof (induction "length vo - i" arbitrary: i vo)
  case 0
  then show ?case by (subst and_vs_loop.simps) simp
next
  case (Suc n)
  then have i: "i < length vo" "i < length va" "\<not> truthy (va ! i)" by simp_all
  have "and_vs_loop sfb b va i False sb vo w = and_vs_loop sfb b va (Suc i) False sb (vo[i := 0]) w"
    using i by (subst and_vs_loop.simps) (simp add: and_vs_step_skip)
  also have "\<dots> = (Inr (take (Suc i) (vo[i := 0]) @ replicate (length (vo[i := 0]) - Suc i) 0), w)"
    using Suc.hyps(2) Suc.prems by (intro Suc.hyps(1)) simp_all
  finally have "and_vs_loop sfb b va i False sb vo w
                  = (Inr (take i vo @ replicate (Suc (length vo - Suc i)) 0), w)"
    using i by (simp add: take_Suc_update)
  moreover from i have "Suc (length vo - Suc i) = length vo - i" by simp
  ultimately show ?case by simp
qed

lemma and_vs_loop_some:
  assumes "length vo \<le> length va" and "\<exists>j. i \<le> j \<and> j < length vo \<and> truthy (va ! j)"
    and "sfb b w = (Inr c, w')"
  shows "and_vs_loop sfb b va i False sb vo w
           = (Inr (take i vo @ map (\<lambda>j. of_truth (truthy (va ! j) \<and> truthy c)) [i..<length vo]), w')"
  using assms(1,2)
proof (induction "length vo - i" arbitrary: i vo)
  case 0
  then show ?case by auto
next
  case (Suc n)
  then have i: "i < length vo" "i < length va" by simp_all
  show ?case
  proof (cases "truthy (va ! i)")
    case True
    let ?x = "of_truth (truthy c)"
    have "and_vs_loop sfb b va i False sb vo w = and_vs_loop sfb b va (Suc i) True c (vo[i := ?x]) w'"
      using i True assms(3) by (subst and_vs_loop.simps) (simp add: and_vs_step_first)
    also have "\<dots> = (Inr (take (Suc i) (vo[i := ?x])
                         @ map (\<lambda>j. of_truth (truthy (va ! j) \<and> truthy c)) [Suc i..<length (vo[i := ?x])]), w')"
      using Suc.prems(1) by (intro and_vs_loop_evaluated) simp
    finally show ?thesis
      using i True by (simp add: take_Suc_update upt_conv_Cons)
  next
    case False
    from Suc.prems(2) obtain j where j: "i \<le> j" "j < length vo" "truthy (va ! j)" by blast
    with False have "j \<noteq> i" by blast
    with j have later: "\<exists>j. Suc i \<le> j \<and> j < length (vo[i := 0]) \<and> truthy (va ! j)"
      by (intro exI [of _ j]) simp
    have "and_vs_loop sfb b va i False sb vo w = and_vs_loop sfb b va (Suc i) False sb (vo[i := 0]) w"
      using i False by (subst and_vs_loop.simps) (simp add: and_vs_step_skip)
    also have "\<dots> = (Inr (take (Suc i) (vo[i := 0])
                         @ map (\<lambda>j. of_truth (truthy (va ! j) \<and> truthy c)) [Suc i..<length (vo[i := 0])]), w')"
      using Suc.hyps(2) Suc.prems(1) later by (intro Suc.hyps(1)) simp_all
    finally show ?thesis
      using i False by (simp add: take_Suc_update upt_conv_Cons of_truth_def)
  qed
qed

lemma and_vs_result_some:
  assumes "vfa b w = (Inr va, w1)" and "\<exists>x \<in> set va. truthy x" and "sfb b w1 = (Inr c, w2)"
  shows "and_vs vfa sfb b w = (Inr (map (\<lambda>x. of_truth (truthy x \<and> truthy c)) va), w2)"
proof -
  from assms(2) have "\<exists>j. 0 \<le> j \<and> j < length (new_vector (length va)) \<and> truthy (va ! j)"
    by (auto simp: new_vector_def in_set_conv_nth)
  then have "and_vs_loop sfb b va 0 False 0 (new_vector (length va)) w1
          = (Inr (take 0 (new_vector (length va))
                  @ map (\<lambda>j. of_truth (truthy (va ! j) \<and> truthy c)) [0..<length (new_vector (length va))]), w2)"
    using assms(3) by (intro and_vs_loop_some) (simp_all add: new_vector_def)
  moreover have "map (\<lambda>j. of_truth (truthy (va ! j) \<and> truthy c)) [0..<length va]
                   = map (\<lambda>x. of_truth (truthy x \<and> truthy c)) va"
    by (rule nth_equalityI) simp_all
  ultimately show ?thesis
    using assms(1) by (simp add: and_vs_def and_then_def new_vector_def)
qed

lemma and_vs_result_none:
  assumes "vfa b w = (Inr va, w1)" and "\<forall>x \<in> set va. \<not> truthy x"
  shows "and_vs vfa sfb b w = (Inr (replicate (length va) 0), w1)"
proof -
  have "and_vs_loop sfb b va 0 False 0 (new_vector (length va)) w1
          = (Inr (take 0 (new_vector (length va)) @ replicate (length (new_vector (length va)) - 0) 0), w1)"
    using assms(2) by (intro and_vs_loop_none) (simp_all add: new_vector_def)
  then show ?thesis
    using assms(1) by (simp add: and_vs_def and_then_def new_vector_def)
qed


lemma or_vs_step_evaluated:
  assumes "i < length vo" and "i < length va"
  shows "or_vs_step sfb b va i (True, sb, vo) w
           = (Inr (True, sb, vo[i := of_truth (truthy (va ! i) \<or> truthy sb)]), w)"
  using assms
  by (simp add: or_vs_step_def and_then_def lift_def return_val_def vector_at_def vector_at_put_def)

lemma or_vs_step_skip:
  assumes "i < length vo" and "i < length va" and "truthy (va ! i)"
  shows "or_vs_step sfb b va i (False, sb, vo) w = (Inr (False, sb, vo[i := 1]), w)"
  using assms
  by (simp add: or_vs_step_def and_then_def lift_def return_val_def vector_at_def vector_at_put_def
        of_truth_def)

lemma or_vs_step_first:
  assumes "i < length vo" and "i < length va" and "\<not> truthy (va ! i)" and "sfb b w = (Inr c, w')"
  shows "or_vs_step sfb b va i (False, sb, vo) w = (Inr (True, c, vo[i := of_truth (truthy c)]), w')"
  using assms
  by (simp add: or_vs_step_def and_then_def lift_def return_val_def vector_at_def vector_at_put_def)

lemma or_vs_loop_evaluated:
  assumes "length vo \<le> length va"
  shows "or_vs_loop sfb b va i True sb vo w
           = (Inr (take i vo @ map (\<lambda>j. of_truth (truthy (va ! j) \<or> truthy sb)) [i..<length vo]), w)"
  using assms
proof (induction "length vo - i" arbitrary: i vo)
  case 0
  then show ?case by (subst or_vs_loop.simps) simp
next
  case (Suc n)
  then have i: "i < length vo" "i < length va" by simp_all
  let ?x = "of_truth (truthy (va ! i) \<or> truthy sb)"
  have "or_vs_loop sfb b va i True sb vo w = or_vs_loop sfb b va (Suc i) True sb (vo[i := ?x]) w"
    using i by (subst or_vs_loop.simps) (simp add: or_vs_step_evaluated)
  also have "\<dots> = (Inr (take (Suc i) (vo[i := ?x])
                       @ map (\<lambda>j. of_truth (truthy (va ! j) \<or> truthy sb)) [Suc i..<length (vo[i := ?x])]), w)"
    using Suc.hyps(2) Suc.prems by (intro Suc.hyps(1)) simp_all
  finally show ?case
    using i by (simp add: take_Suc_update upt_conv_Cons)
qed

lemma or_vs_loop_none:
  assumes "length vo \<le> length va" and "\<And>j. i \<le> j \<Longrightarrow> j < length vo \<Longrightarrow> truthy (va ! j)"
  shows "or_vs_loop sfb b va i False sb vo w = (Inr (take i vo @ replicate (length vo - i) 1), w)"
  using assms
proof (induction "length vo - i" arbitrary: i vo)
  case 0
  then show ?case by (subst or_vs_loop.simps) simp
next
  case (Suc n)
  then have i: "i < length vo" "i < length va" "truthy (va ! i)" by simp_all
  have "or_vs_loop sfb b va i False sb vo w = or_vs_loop sfb b va (Suc i) False sb (vo[i := 1]) w"
    using i by (subst or_vs_loop.simps) (simp add: or_vs_step_skip)
  also have "\<dots> = (Inr (take (Suc i) (vo[i := 1]) @ replicate (length (vo[i := 1]) - Suc i) 1), w)"
    using Suc.hyps(2) Suc.prems by (intro Suc.hyps(1)) simp_all
  finally have "or_vs_loop sfb b va i False sb vo w
                  = (Inr (take i vo @ replicate (Suc (length vo - Suc i)) 1), w)"
    using i by (simp add: take_Suc_update)
  moreover from i have "Suc (length vo - Suc i) = length vo - i" by simp
  ultimately show ?case by simp
qed

lemma or_vs_loop_some:
  assumes "length vo \<le> length va" and "\<exists>j. i \<le> j \<and> j < length vo \<and> \<not> truthy (va ! j)"
    and "sfb b w = (Inr c, w')"
  shows "or_vs_loop sfb b va i False sb vo w
           = (Inr (take i vo @ map (\<lambda>j. of_truth (truthy (va ! j) \<or> truthy c)) [i..<length vo]), w')"
  using assms(1,2)
proof (induction "length vo - i" arbitrary: i vo)
  case 0
  then show ?case by auto
next
  case (Suc n)
  then have i: "i < length vo" "i < length va" by simp_all
  show ?case
  proof (cases "truthy (va ! i)")
    case False
    let ?x = "of_truth (truthy c)"
    have "or_vs_loop sfb b va i False sb vo w = or_vs_loop sfb b va (Suc i) True c (vo[i := ?x]) w'"
      using i False assms(3) by (subst or_vs_loop.simps) (simp add: or_vs_step_first)
    also have "\<dots> = (Inr (take (Suc i) (vo[i := ?x])
                         @ map (\<lambda>j. of_truth (truthy (va ! j) \<or> truthy c)) [Suc i..<length (vo[i := ?x])]), w')"
      using Suc.prems(1) by (intro or_vs_loop_evaluated) simp
    finally show ?thesis
      using i False by (simp add: take_Suc_update upt_conv_Cons)
  next
    case True
    from Suc.prems(2) obtain j where j: "i \<le> j" "j < length vo" "\<not> truthy (va ! j)" by blast
    with True have "j \<noteq> i" by blast
    with j have later: "\<exists>j. Suc i \<le> j \<and> j < length (vo[i := 1]) \<and> \<not> truthy (va ! j)"
      by (intro exI [of _ j]) simp
    have "or_vs_loop sfb b va i False sb vo w = or_vs_loop sfb b va (Suc i) False sb (vo[i := 1]) w"
      using i True by (subst or_vs_loop.simps) (simp add: or_vs_step_skip)
    also have "\<dots> = (Inr (take (Suc i) (vo[i := 1])
                         @ map (\<lambda>j. of_truth (truthy (va ! j) \<or> truthy c)) [Suc i..<length (vo[i := 1])]), w')"
      using Suc.hyps(2) Suc.prems(1) later by (intro Suc.hyps(1)) simp_all
    finally show ?thesis
      using i True by (simp add: take_Suc_update upt_conv_Cons of_truth_def)
  qed
qed

lemma or_vs_result_some:
  assumes "vfa b w = (Inr va, w1)" and "\<exists>x \<in> set va. \<not> truthy x" and "sfb b w1 = (Inr c, w2)"
  shows "or_vs vfa sfb b w = (Inr (map (\<lambda>x. of_truth (truthy x \<or> truthy c)) va), w2)"
proof -
  from assms(2) have "\<exists>j. 0 \<le> j \<and> j < length (new_vector (length va)) \<and> \<not> truthy (va ! j)"
    by (auto simp: new_vector_def in_set_conv_nth)
  then have "or_vs_loop sfb b va 0 False 0 (new_vector (length va)) w1
          = (Inr (take 0 (new_vector (length va))
                  @ map (\<lambda>j. of_truth (truthy (va ! j) \<or> truthy c)) [0..<length (new_vector (length va))]), w2)"
    using assms(3) by (intro or_vs_loop_some) (simp_all add: new_vector_def)
  moreover have "map (\<lambda>j. of_truth (truthy (va ! j) \<or> truthy c)) [0..<length va]
                   = map (\<lambda>x. of_truth (truthy x \<or> truthy c)) va"
    by (rule nth_equalityI) simp_all
  ultimately show ?thesis
    using assms(1) by (simp add: or_vs_def and_then_def new_vector_def)
qed

lemma or_vs_result_none:
  assumes "vfa b w = (Inr va, w1)" and "\<forall>x \<in> set va. truthy x"
  shows "or_vs vfa sfb b w = (Inr (replicate (length va) 1), w1)"
proof -
  have "or_vs_loop sfb b va 0 False 0 (new_vector (length va)) w1
          = (Inr (take 0 (new_vector (length va)) @ replicate (length (new_vector (length va)) - 0) 1), w1)"
    using assms(2) by (intro or_vs_loop_none) (simp_all add: new_vector_def)
  then show ?thesis
    using assms(1) by (simp add: or_vs_def and_then_def new_vector_def)
qed

text \<open>
  Claim C3. For a vector \<open>A\<close> and a scalar \<open>B\<close>, on every record on which \<open>A\<close> returns
  \<open>va\<close>: \<open>A && B\<close> calls \<open>B\<close> once, in the state \<open>A\<close> left, when some element of
  \<open>va\<close> is true, and not at all when none is; the result is as long as \<open>va\<close> and its
  element \<open>i\<close> is \<open>va ! i && c\<close>, where \<open>c\<close> is the value of that one call (any value
  when there was no call). \<open>A || B\<close> calls \<open>B\<close> once when some element of \<open>va\<close> is
  false, and not at all when none is; its element \<open>i\<close> is \<open>va ! i || c\<close>.
\<close>

theorem logical_vector_scalar:
  fixes A B :: "('b, 'w) NamedFunc"
  assumes "exactly_one A" and "exactly_one B"
    and "vector_func' A = Some vfa" and "scalar_func' B = Some sfb"
    and "vfa b w = (Inr va, w1)"
  shows
    "((\<exists>x \<in> set va. truthy x) \<and> sfb b w1 = (Inr c, w2) \<longrightarrow>
        (\<exists>vo. GetVector (operator_and A B) b w = (Inr vo, w2) \<and> length vo = length va \<and>
              (\<forall>i<length va. vo ! i = of_truth (truthy (va ! i) \<and> truthy c))))
   \<and> ((\<forall>x \<in> set va. \<not> truthy x) \<longrightarrow>
        (\<exists>vo. GetVector (operator_and A B) b w = (Inr vo, w1) \<and> length vo = length va \<and>
              (\<forall>i<length va. vo ! i = of_truth (truthy (va ! i) \<and> truthy c))))
   \<and> ((\<exists>x \<in> set va. \<not> truthy x) \<and> sfb b w1 = (Inr c, w2) \<longrightarrow>
        (\<exists>vo. GetVector (operator_or A B) b w = (Inr vo, w2) \<and> length vo = length va \<and>
              (\<forall>i<length va. vo ! i = of_truth (truthy (va ! i) \<or> truthy c))))
   \<and> ((\<forall>x \<in> set va. truthy x) \<longrightarrow>
        (\<exists>vo. GetVector (operator_or A B) b w = (Inr vo, w1) \<and> length vo = length va \<and>
              (\<forall>i<length va. vo ! i = of_truth (truthy (va ! i) \<or> truthy c))))"
proof -
  from assms(1,3) have "scalar_func' A = None"
    by (simp add: exactly_one_funcs)
  with assms(3,4)
  have f_and: "vector_func' (operator_and A B) = Some (and_vs vfa sfb)"
    and f_or: "vector_func' (operator_or A B) = Some (or_vs vfa sfb)"
    by (simp_all add: operator_and_funcs [OF assms(1,2)] operator_or_funcs [OF assms(1,2)]
          ApplyOp_logical_and_vs ApplyOp_logical_or_vs)
  have 1: "\<exists>vo. GetVector (operator_and A B) b w = (Inr vo, w2) \<and> length vo = length va \<and>
              (\<forall>i<length va. vo ! i = of_truth (truthy (va ! i) \<and> truthy c))"
    if "\<exists>x \<in> set va. truthy x" and "sfb b w1 = (Inr c, w2)"
  proof -
    have "and_vs vfa sfb b w = (Inr (map (\<lambda>x. of_truth (truthy x \<and> truthy c)) va), w2)"
      using assms(5) that by (rule and_vs_result_some)
    with f_and show ?thesis by (simp add: GetVector_def call_def)
  qed
  have 2: "\<exists>vo. GetVector (operator_and A B) b w = (Inr vo, w1) \<and> length vo = length va \<and>
              (\<forall>i<length va. vo ! i = of_truth (truthy (va ! i) \<and> truthy c))"
    if "\<forall>x \<in> set va. \<not> truthy x"
  proof -
    have "and_vs vfa sfb b w = (Inr (replicate (length va) 0), w1)"
      using assms(5) that by (rule and_vs_result_none)
    with f_and that show ?thesis by (simp add: GetVector_def call_def of_truth_def)
  qed
  have 3: "\<exists>vo. GetVector (operator_or A B) b w = (Inr vo, w2) \<and> length vo = length va \<and>
              (\<forall>i<length va. vo ! i = of_truth (truthy (va ! i) \<or> truthy c))"
    if "\<exists>x \<in> set va. \<not> truthy x" and "sfb b w1 = (Inr c, w2)"
  proof -
    have "or_vs vfa sfb b w = (Inr (map (\<lambda>x. of_truth (truthy x \<or> truthy c)) va), w2)"
      using assms(5) that by (rule or_vs_result_some)
    with f_or show ?thesis by (simp add: GetVector_def call_def)
  qed
  have 4: "\<exists>vo. GetVector (operator_or A B) b w = (Inr vo, w1) \<and> length vo = length va \<and>
              (\<forall>i<length va. vo ! i = of_truth (truthy (va ! i) \<or> truthy c))"
    if "\<forall>x \<in> set va. truthy x"
  proof -
    have "or_vs vfa sfb b w = (Inr (replicate (length va) 1), w1)"
      using assms(5) that by (rule or_vs_result_none)
    with f_or that show ?thesis by (simp add: GetVector_def call_def of_truth_def)
  qed
  from 1 2 3 4 show ?thesis by blast
qed


theorem logical_vector_scalar_witness:
  "(\<exists>vo. GetVector (operator_and (counting_vector ''v'' [0, 2, 0, 3]) (counting_scalar ''s'' 7)) () 0
            = (Inr vo, 2) \<and> length vo = 4 \<and> vo ! 0 = 0 \<and> vo ! 1 = 1 \<and> vo ! 2 = 0 \<and> vo ! 3 = 1)
   \<and> (\<exists>vo. GetVector (operator_and (counting_vector ''v'' [0, 0]) (counting_scalar ''s'' 7)) () 0
            = (Inr vo, 1) \<and> length vo = 2 \<and> vo ! 0 = 0 \<and> vo ! 1 = 0)
   \<and> (\<exists>vo. GetVector (operator_or (counting_vector ''v'' [4, 0, 0]) (counting_scalar ''s'' 0)) () 0
            = (Inr vo, 2) \<and> length vo = 3 \<and> vo ! 0 = 1 \<and> vo ! 1 = 0 \<and> vo ! 2 = 0)
   \<and> (\<exists>vo. GetVector (operator_or (counting_vector ''v'' [4, 5]) (counting_scalar ''s'' 0)) () 0
            = (Inr vo, 1) \<and> length vo = 2 \<and> vo ! 0 = 1 \<and> vo ! 1 = 1)"
proof (intro conjI)
  show "\<exists>vo. GetVector (operator_and (counting_vector ''v'' [0, 2, 0, 3]) (counting_scalar ''s'' 7)) () 0
            = (Inr vo, 2) \<and> length vo = 4 \<and> vo ! 0 = 0 \<and> vo ! 1 = 1 \<and> vo ! 2 = 0 \<and> vo ! 3 = 1"
    using logical_vector_scalar
      [where A = "counting_vector ''v'' [0, 2, 0, 3]" and B = "counting_scalar ''s'' 7"
         and vfa = "\<lambda>b w. (Inr [0, 2, 0, 3], Suc w)" and sfb = "\<lambda>b w. (Inr 7, Suc w)"
         and b = "()" and w = 0 and va = "[0, 2, 0, 3]" and ?w1.0 = 1 and c = 7 and ?w2.0 = 2]
    by (auto simp add: counting_scalar_funcs counting_vector_funcs truthy_def of_truth_def
          All_less_Suc numeral_eq_Suc)
  show "\<exists>vo. GetVector (operator_and (counting_vector ''v'' [0, 0]) (counting_scalar ''s'' 7)) () 0
            = (Inr vo, 1) \<and> length vo = 2 \<and> vo ! 0 = 0 \<and> vo ! 1 = 0"
    using logical_vector_scalar
      [where A = "counting_vector ''v'' [0, 0]" and B = "counting_scalar ''s'' 7"
         and vfa = "\<lambda>b w. (Inr [0, 0], Suc w)" and sfb = "\<lambda>b w. (Inr 7, Suc w)"
         and b = "()" and w = 0 and va = "[0, 0]" and ?w1.0 = 1 and c = 7 and ?w2.0 = 2]
    by (auto simp add: counting_scalar_funcs counting_vector_funcs truthy_def of_truth_def
          All_less_Suc numeral_eq_Suc)
  show "\<exists>vo. GetVector (operator_or (counting_vector ''v'' [4, 0, 0]) (counting_scalar ''s'' 0)) () 0
            = (Inr vo, 2) \<and> length vo = 3 \<and> vo ! 0 = 1 \<and> vo ! 1 = 0 \<and> vo ! 2 = 0"
    using logical_vector_scalar
      [where A = "counting_vector ''v'' [4, 0, 0]" and B = "counting_scalar ''s'' 0"
         and vfa = "\<lambda>b w. (Inr [4, 0, 0], Suc w)" and sfb = "\<lambda>b w. (Inr 0, Suc w)"
         and b = "()" and w = 0 and va = "[4, 0, 0]" and ?w1.0 = 1 and c = 0 and ?w2.0 = 2]
    by (auto simp add: counting_scalar_funcs counting_vector_funcs truthy_def of_truth_def
          All_less_Suc numeral_eq_Suc)
  show "\<exists>vo. GetVector (operator_or (counting_vector ''v'' [4, 5]) (counting_scalar ''s'' 0)) () 0
            = (Inr vo, 1) \<and> length vo = 2 \<and> vo ! 0 = 1 \<and> vo ! 1 = 1"
    using logical_vector_scalar
      [where A = "counting_vector ''v'' [4, 5]" and B = "counting_scalar ''s'' 0"
         and vfa = "\<lambda>b w. (Inr [4, 5], Suc w)" and sfb = "\<lambda>b w. (Inr 0, Suc w)"
         and b = "()" and w = 0 and va = "[4, 5]" and ?w1.0 = 1 and c = 0 and ?w2.0 = 2]
    by (auto simp add: counting_scalar_funcs counting_vector_funcs truthy_def of_truth_def
          All_less_Suc numeral_eq_Suc)
qed

subsection \<open>Shapes, construction and errors\<close>

text \<open>What the constructors, the setters and the operators store in the two function
  members, and what the indexing closure returns.\<close>

lemma NamedFunc_scalar_funcs:
  "scalar_func' (NamedFunc_scalar name function) = function"
  "vector_func' (NamedFunc_scalar name function) = None"
  by (simp_all add: NamedFunc_scalar_def CleanName_def)

lemma NamedFunc_vector_funcs:
  "scalar_func' (NamedFunc_vector name function) = None"
  "vector_func' (NamedFunc_vector name function) = function"
  by (simp_all add: NamedFunc_vector_def CleanName_def)

lemma set_Name_funcs:
  "scalar_func' (set_Name f name) = scalar_func' f"
  "vector_func' (set_Name f name) = vector_func' f"
  by (simp_all add: set_Name_def CleanName_def)

lemma binary_exactly_one:
  assumes "exactly_one f" and "exactly_one g"
  shows "exactly_one (binary bop f g)"
  using ApplyOp_exactly_one [of "scalar_func' f" "vector_func' f" "scalar_func' g" "vector_func' g" "functor_of bop"]
    assms
  by (simp add: exactly_one_funcs binary_funcs [OF assms])

lemma operator_and_exactly_one:
  assumes "exactly_one f" and "exactly_one g"
  shows "exactly_one (operator_and f g)"
  using ApplyOp_logical_and_exactly_one [of "scalar_func' f" "vector_func' f" "scalar_func' g" "vector_func' g"]
    assms
  by (simp add: exactly_one_funcs operator_and_funcs [OF assms])

lemma operator_or_exactly_one:
  assumes "exactly_one f" and "exactly_one g"
  shows "exactly_one (operator_or f g)"
  using ApplyOp_logical_or_exactly_one [of "scalar_func' f" "vector_func' f" "scalar_func' g" "vector_func' g"]
    assms
  by (simp add: exactly_one_funcs operator_or_funcs [OF assms])

lemma unary_funcs:
  "scalar_func' (operator_unary_plus f) = scalar_func' f"
  "vector_func' (operator_unary_plus f) = vector_func' f"
  "scalar_func' (operator_unary_minus f) = ApplyOp_scalar (scalar_func' f) negate_op"
  "vector_func' (operator_unary_minus f)
     = (if scalar_func' f = None then ApplyOp_vector (vector_func' f) negate_op else None)"
  "scalar_func' (operator_not f) = ApplyOp_scalar (scalar_func' f) logical_not_op"
  "vector_func' (operator_not f)
     = (if scalar_func' f = None then ApplyOp_vector (vector_func' f) logical_not_op else None)"
  by (auto simp: operator_unary_plus_def operator_unary_minus_def operator_not_def Let_def
        set_Name_funcs ScalarFunction_def VectorFunction_def Function_scalar_def
        Function_vector_def ApplyOp_scalar_def ApplyOp_vector_def split: option.splits)

lemma unary_exactly_one:
  assumes "exactly_one f"
  shows "exactly_one (operator_unary_plus f)" and "exactly_one (operator_unary_minus f)"
    and "exactly_one (operator_not f)"
  using assms
  by (auto simp: exactly_one_funcs unary_funcs ApplyOp_scalar_def ApplyOp_vector_def
        split: option.splits)

lemma operator_index_cases:
  "operator_index f g =
     (if IsScalar f \<or> IsVector g then Inl ShapeMismatchError
      else Inr (NamedFunc_scalar (''('' @ Name f @ '')['' @ Name g @ '']'')
                  (Some (index_closure (vector_func' f) (scalar_func' g)))))"
  by (simp add: operator_index_def Let_def VectorFunction_def ScalarFunction_def)

lemma index_closure_result:
  assumes "vfa b w = (Inr v, w1)" and "sfb b w1 = (Inr x, w2)"
  shows "index_closure (Some vfa) (Some sfb) b w
           = (if to_size_t x < length v then Inr (v ! to_size_t x) else Inl IndexOutOfRangeError, w2)"
  using assms
  by (simp add: index_closure_def call_def and_then_def lift_def vector_at_def)

lemma index_closure_empty:
  "index_closure None index b w = (Inl InvalidShapeError, w)"
  by (simp add: index_closure_def call_def and_then_def throw_def)



lemma to_size_t_examples:
  "to_size_t 1 = 1" "to_size_t 5 = 5" "to_size_t (- 1) = 2 ^ 64 - 1" "to_size_t (- (1 / 2)) = 0"
  "to_size_t (3 / 2) = 1"
proof -
  have "\<lceil>- 1 :: real\<rceil> = - 1"
    by (rule ceiling_unique) simp_all
  then show "to_size_t (- 1) = 2 ^ 64 - 1"
    by (simp add: to_size_t_def)
qed (simp_all add: to_size_t_def)


text \<open>
  Claim C4. Every publicly constructed object holds exactly one of the scalar and the
  vector function, never both and never neither, and every operation keeps this; setting a
  non-empty function of one kind clears the other, and setting an empty one changes
  nothing. The two constructors from a name and a function do not keep to it: they store
  the function they are given without the test that the setters make, so that from an
  empty function they build an object that holds neither. Such an object answers every
  evaluation with an InvalidShapeError, added to another object it gives a sum that again
  holds neither, and compared with another object it gives an object that carries the name
  of the comparison and still the function of the left operand.
\<close>

theorem constructed_with_neither:
  "\<not> exactly_one (NamedFunc_scalar ''x'' None :: (unit, nat) NamedFunc)
   \<and> \<not> IsScalar (NamedFunc_scalar ''x'' None :: (unit, nat) NamedFunc)
   \<and> \<not> IsVector (NamedFunc_scalar ''x'' None :: (unit, nat) NamedFunc)
   \<and> \<not> exactly_one (NamedFunc_vector ''x'' None :: (unit, nat) NamedFunc)
   \<and> GetScalar (NamedFunc_scalar ''x'' None :: (unit, nat) NamedFunc) () 0 = (Inl InvalidShapeError, 0)
   \<and> GetVector (NamedFunc_scalar ''x'' None :: (unit, nat) NamedFunc) () 0 = (Inl InvalidShapeError, 0)
   \<and> \<not> exactly_one (operator_plus (counting_scalar ''a'' 1) (NamedFunc_scalar ''x'' None))
   \<and> Name (operator_greater (counting_scalar ''a'' 1) (NamedFunc_scalar ''x'' None)) = ''(a)>(x)''
   \<and> GetScalar (operator_greater (counting_scalar ''a'' 1) (NamedFunc_scalar ''x'' None)) () 0
       = GetScalar (counting_scalar ''a'' 1) () 0"
  by (simp add: exactly_one_def IsScalar_def IsVector_def NamedFunc_scalar_funcs
        NamedFunc_vector_funcs GetScalar_def GetVector_def call_def throw_def
        operator_plus_def operator_plus_assign_def compound_assignment_funcs ApplyOp_def
        counting_scalar_funcs operator_greater_def rename_and_set_def Let_def set_Name_def
        CleanName_def Name_def ScalarFunction_def VectorFunction_def Function_scalar_def
        Function_vector_def counting_scalar_def NamedFunc_scalar_def ReplaceAll_spaces_def)

text \<open>
  What the code does keep. An object constructed from a constant, or from a name and a
  function that is not empty, holds exactly one function. Every operation keeps this:
  renaming, the binary, logical and unary operators on operands that hold exactly one
  function each, and indexing whenever it returns an object. Setting a non-empty function
  of one kind stores it and clears the other kind; setting an empty function leaves the
  object as it was.
\<close>

theorem exactly_one_invariant:
  fixes f g :: "('b, 'w) NamedFunc"
  shows
    "(sf \<noteq> None \<longrightarrow> exactly_one (NamedFunc_scalar name sf :: ('b, 'w) NamedFunc))
   \<and> (vf \<noteq> None \<longrightarrow> exactly_one (NamedFunc_vector name vf :: ('b, 'w) NamedFunc))
   \<and> exactly_one (NamedFunc_constant ToString x :: ('b, 'w) NamedFunc)
   \<and> (exactly_one f \<longrightarrow> exactly_one (set_Name f name))
   \<and> (exactly_one f \<and> exactly_one g \<longrightarrow>
         exactly_one (binary bop f g) \<and> exactly_one (operator_plus_assign f g) \<and>
         exactly_one (operator_minus_assign f g) \<and> exactly_one (operator_times_assign f g) \<and>
         exactly_one (operator_divide_assign f g) \<and> exactly_one (operator_modulo_assign f g) \<and>
         exactly_one (operator_and f g) \<and> exactly_one (operator_or f g))
   \<and> (exactly_one f \<longrightarrow>
         exactly_one (operator_unary_plus f) \<and> exactly_one (operator_unary_minus f) \<and>
         exactly_one (operator_not f))
   \<and> (operator_index f g = Inr h \<longrightarrow> exactly_one h)
   \<and> (sf \<noteq> None \<longrightarrow>
         scalar_func' (Function_scalar f sf) = sf \<and> vector_func' (Function_scalar f sf) = None \<and>
         exactly_one (Function_scalar f sf))
   \<and> (vf \<noteq> None \<longrightarrow>
         vector_func' (Function_vector f vf) = vf \<and> scalar_func' (Function_vector f vf) = None \<and>
         exactly_one (Function_vector f vf))
   \<and> Function_scalar f None = f \<and> Function_vector f None = f"
proof (intro conjI impI)
  show "exactly_one (NamedFunc_scalar name sf :: ('b, 'w) NamedFunc)" if "sf \<noteq> None"
    using that by (simp add: exactly_one_funcs NamedFunc_scalar_funcs)
  show "exactly_one (NamedFunc_vector name vf :: ('b, 'w) NamedFunc)" if "vf \<noteq> None"
    using that by (simp add: exactly_one_funcs NamedFunc_vector_funcs)
  show "exactly_one (NamedFunc_constant ToString x :: ('b, 'w) NamedFunc)"
    by (simp add: exactly_one_funcs NamedFunc_constant_def)
  show "exactly_one (set_Name f name)" if "exactly_one f"
    using that by (simp add: exactly_one_funcs set_Name_funcs)
  {
    assume fg: "exactly_one f \<and> exactly_one g"
    then show "exactly_one (binary bop f g)"
      by (simp add: binary_exactly_one)
    from fg binary_exactly_one [of f g Add] show "exactly_one (operator_plus_assign f g)"
      by (simp add: operator_plus_def)
    from fg binary_exactly_one [of f g Subtract] show "exactly_one (operator_minus_assign f g)"
      by (simp add: operator_minus_def)
    from fg binary_exactly_one [of f g Multiply] show "exactly_one (operator_times_assign f g)"
      by (simp add: operator_times_def)
    from fg binary_exactly_one [of f g Divide] show "exactly_one (operator_divide_assign f g)"
      by (simp add: operator_divide_def)
    from fg binary_exactly_one [of f g Modulo] show "exactly_one (operator_modulo_assign f g)"
      by (simp add: operator_modulo_def)
    from fg show "exactly_one (operator_and f g)"
      by (simp add: operator_and_exactly_one)
    from fg show "exactly_one (operator_or f g)"
      by (simp add: operator_or_exactly_one)
  }
  show "exactly_one (operator_unary_plus f)" if "exactly_one f"
    using that by (rule unary_exactly_one)
  show "exactly_one (operator_unary_minus f)" if "exactly_one f"
    using that by (rule unary_exactly_one)
  show "exactly_one (operator_not f)" if "exactly_one f"
    using that by (rule unary_exactly_one)
  show "exactly_one h" if "operator_index f g = Inr h"
    using that
    by (auto simp: operator_index_cases exactly_one_funcs NamedFunc_scalar_funcs split: if_splits)
  show "scalar_func' (Function_scalar f sf) = sf" if "sf \<noteq> None"
    using that by (auto simp: Function_scalar_def)
  show "vector_func' (Function_scalar f sf) = None" if "sf \<noteq> None"
    using that by (auto simp: Function_scalar_def)
  show "exactly_one (Function_scalar f sf)" if "sf \<noteq> None"
    using that by (auto simp: Function_scalar_def exactly_one_funcs)
  show "vector_func' (Function_vector f vf) = vf" if "vf \<noteq> None"
    using that by (auto simp: Function_vector_def)
  show "scalar_func' (Function_vector f vf) = None" if "vf \<noteq> None"
    using that by (auto simp: Function_vector_def)
  show "exactly_one (Function_vector f vf)" if "vf \<noteq> None"
    using that by (auto simp: Function_vector_def exactly_one_funcs)
  show "Function_scalar f None = f"
    by (simp add: Function_scalar_def)
  show "Function_vector f None = f"
    by (simp add: Function_vector_def)
qed


theorem exactly_one_invariant_witness:
  "exactly_one (NamedFunc_scalar ''x'' (Some (\<lambda>b w. (Inr 1, Suc w))) :: (unit, nat) NamedFunc)
   \<and> exactly_one (NamedFunc_vector ''y'' (Some (\<lambda>b w. (Inr [1, 2], Suc w))) :: (unit, nat) NamedFunc)
   \<and> exactly_one (set_Name (counting_vector ''v'' [1, 2]) ''new name'')
   \<and> exactly_one (binary Add (counting_vector ''v'' [1, 2]) (counting_scalar ''s'' 3))
   \<and> exactly_one (operator_and (counting_vector ''v'' [1, 2]) (counting_scalar ''s'' 3))
   \<and> exactly_one (operator_unary_minus (counting_vector ''v'' [1, 2]))
   \<and> (\<exists>h. operator_index (counting_vector ''v'' [1, 2]) (counting_scalar ''s'' 3) = Inr h \<and> exactly_one h)
   \<and> vector_func' (Function_scalar (counting_vector ''v'' [1, 2]) (Some (\<lambda>b w. (Inr 1, Suc w)))) = None
   \<and> scalar_func' (Function_vector (counting_vector ''v'' [1, 2]) (Some (\<lambda>b w. (Inr [1, 2], Suc w)))) = None"
proof -
  let ?f = "counting_vector ''v'' [1, 2]" and ?g = "counting_scalar ''s'' 3"
  obtain h where h: "operator_index ?f ?g = Inr h"
    by (simp add: operator_index_cases IsScalar_def IsVector_def counting_scalar_funcs
          counting_vector_funcs)
  have one: "exactly_one ?f" "exactly_one ?g"
    by (simp_all add: counting_scalar_funcs counting_vector_funcs)
  show ?thesis
    using h one
      exactly_one_invariant
        [where f = ?f and g = ?g and h = h and bop = Add and name = "''new name''"
           and sf = "Some (\<lambda>b w. (Inr 1, Suc w))" and vf = "Some (\<lambda>b w. (Inr [1, 2], Suc w))"]
      exactly_one_invariant
        [where 'b = unit and 'w = nat and name = "''x''" and sf = "Some (\<lambda>b w. (Inr 1, Suc w))"]
      exactly_one_invariant
        [where 'b = unit and 'w = nat and name = "''y''" and vf = "Some (\<lambda>b w. (Inr [1, 2], Suc w))"]
    by simp
qed

text \<open>
  Claim C6 as stated puts every shape and index error at evaluation time. The indexing
  operator tests the shapes of its operands when the expression is built: applied to a
  scalar receiver it returns no object but the error, before any record is seen.
\<close>

theorem shape_mismatch_at_construction:
  "operator_index (counting_scalar ''pt'' 3) (counting_scalar ''i'' 0) = Inl ShapeMismatchError"
  by (simp add: operator_index_cases IsScalar_def counting_scalar_funcs)

text \<open>
  Claim C6, amended. Building a binary or logical expression never fails: every pair of
  operand shapes is defined and gives an object with exactly one function. Building an
  indexing expression fails exactly when the receiver is a scalar or the index a vector,
  and then with a ShapeMismatchError; of the three shape and index errors this is the only
  one at construction time. The other two appear only when a function is called on a
  record: an
  IndexOutOfRangeError from an indexing expression that was built without error, when the
  index is not below the length of the vector for that record, and an InvalidShapeError
  from asking an object for the kind of result it does not hold.
\<close>

theorem errors_at_construction_and_evaluation:
  fixes f g :: "('b, 'w) NamedFunc"
  shows
    "(exactly_one f \<and> exactly_one g \<longrightarrow>
        exactly_one (binary bop f g) \<and> exactly_one (operator_and f g) \<and> exactly_one (operator_or f g))
   \<and> (operator_index f g = Inl e \<longleftrightarrow> e = ShapeMismatchError \<and> (IsScalar f \<or> IsVector g))
   \<and> (operator_index f g = Inr h \<and> vector_func' f = Some vfa \<and> scalar_func' g = Some sfb \<and>
       vfa b w = (Inr v, w1) \<and> sfb b w1 = (Inr x, w2) \<and> to_size_t x = n \<and> length v \<le> n \<longrightarrow>
         GetScalar h b w = (Inl IndexOutOfRangeError, w2))
   \<and> (\<not> IsScalar f \<longrightarrow> GetScalar f b w = (Inl InvalidShapeError, w))
   \<and> (\<not> IsVector f \<longrightarrow> GetVector f b w = (Inl InvalidShapeError, w))"
proof (intro conjI impI)
  assume fg: "exactly_one f \<and> exactly_one g"
  then show "exactly_one (binary bop f g)" by (simp add: binary_exactly_one)
  from fg show "exactly_one (operator_and f g)" by (simp add: operator_and_exactly_one)
  from fg show "exactly_one (operator_or f g)" by (simp add: operator_or_exactly_one)
next
  show "operator_index f g = Inl e \<longleftrightarrow> e = ShapeMismatchError \<and> (IsScalar f \<or> IsVector g)"
    by (auto simp: operator_index_cases)
next
  assume a: "operator_index f g = Inr h \<and> vector_func' f = Some vfa \<and> scalar_func' g = Some sfb \<and>
       vfa b w = (Inr v, w1) \<and> sfb b w1 = (Inr x, w2) \<and> to_size_t x = n \<and> length v \<le> n"
  then have "h = NamedFunc_scalar (''('' @ Name f @ '')['' @ Name g @ '']'')
                   (Some (index_closure (Some vfa) (Some sfb)))"
    by (auto simp: operator_index_cases split: if_splits)
  with a index_closure_result [of vfa b w v w1 sfb x w2]
  show "GetScalar h b w = (Inl IndexOutOfRangeError, w2)"
    by (simp add: GetScalar_def call_def NamedFunc_scalar_funcs)
next
  assume "\<not> IsScalar f"
  then show "GetScalar f b w = (Inl InvalidShapeError, w)"
    by (simp add: IsScalar_def GetScalar_def call_def throw_def)
next
  assume "\<not> IsVector f"
  then show "GetVector f b w = (Inl InvalidShapeError, w)"
    by (simp add: IsVector_def GetVector_def call_def throw_def)
qed

theorem errors_at_construction_and_evaluation_witness:
  "exactly_one (binary Less (counting_vector ''v'' [10, 20, 30]) (counting_scalar ''i'' 5))
   \<and> operator_index (counting_scalar ''i'' 5) (counting_scalar ''i'' 5) = Inl ShapeMismatchError
   \<and> (\<exists>h. operator_index (counting_vector ''v'' [10, 20, 30]) (counting_scalar ''i'' 5) = Inr h
          \<and> GetScalar h () 0 = (Inl IndexOutOfRangeError, 2))
   \<and> GetScalar (counting_vector ''v'' [10, 20, 30]) () 0 = (Inl InvalidShapeError, 0)
   \<and> GetVector (counting_scalar ''i'' 5) () 0 = (Inl InvalidShapeError, 0)"
proof -
  let ?f = "counting_vector ''v'' [10, 20, 30]" and ?g = "counting_scalar ''i'' 5"
  obtain h where h: "operator_index ?f ?g = Inr h"
    by (simp add: operator_index_cases IsScalar_def IsVector_def counting_scalar_funcs
          counting_vector_funcs)
  show ?thesis
    using h
      errors_at_construction_and_evaluation
        [where f = ?f and g = ?g and h = h and bop = Less
           and vfa = "\<lambda>b w. (Inr [10, 20, 30], Suc w)" and sfb = "\<lambda>b w. (Inr 5, Suc w)"
           and b = "()" and w = 0 and v = "[10, 20, 30]" and ?w1.0 = 1 and x = 5 and ?w2.0 = 2 and n = 5]
      errors_at_construction_and_evaluation
        [where f = ?g and g = ?g and e = ShapeMismatchError and b = "()" and w = 0]
    by (simp add: IsScalar_def IsVector_def counting_scalar_funcs counting_vector_funcs
          to_size_t_examples)
qed

subsection \<open>Unary operators\<close>

lemma apply_each_map: "apply_each op_c v = map op_c v"
  by (induction v) simp_all

lemma ApplyOp_scalar_result:
  assumes "sf b w = (Inr x, w1)"
  shows "call (ApplyOp_scalar (Some sf) op_c) b w = (Inr (op_c x), w1)"
  using assms by (simp add: ApplyOp_scalar_def call_def and_then_def return_val_def)

lemma ApplyOp_vector_result:
  assumes "vf b w = (Inr v, w1)"
  shows "call (ApplyOp_vector (Some vf) op_c) b w = (Inr (map op_c v), w1)"
  using assms by (simp add: ApplyOp_vector_def call_def and_then_def return_val_def apply_each_map)

lemma ReplaceAll_spaces_clean: "CHR '' '' \<notin> set s \<Longrightarrow> ReplaceAll_spaces s = s"
  by (auto simp: ReplaceAll_spaces_def filter_id_conv)

lemma ReplaceAll_spaces_no_space: "CHR '' '' \<notin> set (ReplaceAll_spaces s)"
  by (simp add: ReplaceAll_spaces_def)

lemma set_Name_name: "Name (set_Name f name) = ReplaceAll_spaces name"
  by (simp add: set_Name_def CleanName_def Name_def)

lemma unary_names:
  "Name (operator_unary_plus f) = ReplaceAll_spaces (''+('' @ Name f @ '')'')"
  "Name (operator_unary_minus f) = ReplaceAll_spaces (''-('' @ Name f @ '')'')"
  "Name (operator_not f) = ReplaceAll_spaces (''!('' @ Name f @ '')'')"
  by (simp_all add: operator_unary_plus_def operator_unary_minus_def operator_not_def Let_def
        Name_def Function_scalar_def Function_vector_def set_Name_def CleanName_def)

text \<open>
  Claim C8. Unary minus and logical not keep the shape of their operand: on a scalar
  object the result is a scalar whose function returns the operator applied to the
  operand's value; on a vector object the result is a vector whose function returns a
  vector as long as the operand's, with the operator applied to each element in place. A
  function that the operand does not hold is not held by the result, and an empty function
  stays empty under \<^verbatim>\<open>ApplyOp\<close>. Unary plus leaves both functions as they are and
  renames the object to the cleaned \<open>+(...)\<close> form.
\<close>

theorem unary_operators_keep_shape:
  fixes f :: "('b, 'w) NamedFunc"
  shows
    "(scalar_func' f = Some sf \<longrightarrow>
        IsScalar (operator_unary_minus f) \<and> \<not> IsVector (operator_unary_minus f) \<and>
        IsScalar (operator_not f) \<and> \<not> IsVector (operator_not f) \<and>
        (sf b w = (Inr x, w1) \<longrightarrow>
           GetScalar (operator_unary_minus f) b w = (Inr (- x), w1) \<and>
           GetScalar (operator_not f) b w = (Inr (of_truth (\<not> truthy x)), w1)))
   \<and> (vector_func' f = Some vf \<and> scalar_func' f = None \<longrightarrow>
        IsVector (operator_unary_minus f) \<and> \<not> IsScalar (operator_unary_minus f) \<and>
        IsVector (operator_not f) \<and> \<not> IsScalar (operator_not f) \<and>
        (vf b w = (Inr v, w1) \<longrightarrow>
           (\<exists>vo. GetVector (operator_unary_minus f) b w = (Inr vo, w1) \<and> length vo = length v \<and>
                 (\<forall>i<length v. vo ! i = - (v ! i))) \<and>
           (\<exists>vo. GetVector (operator_not f) b w = (Inr vo, w1) \<and> length vo = length v \<and>
                 (\<forall>i<length v. vo ! i = of_truth (\<not> truthy (v ! i))))))
   \<and> (\<not> IsScalar f \<longrightarrow>
        \<not> IsScalar (operator_unary_minus f) \<and> \<not> IsScalar (operator_not f) \<and>
        \<not> IsScalar (operator_unary_plus f))
   \<and> (\<not> IsVector f \<longrightarrow>
        \<not> IsVector (operator_unary_minus f) \<and> \<not> IsVector (operator_not f) \<and>
        \<not> IsVector (operator_unary_plus f))
   \<and> ApplyOp_scalar (None :: ('b, 'w) ScalarFunc option) op_c = None
   \<and> ApplyOp_vector (None :: ('b, 'w) VectorFunc option) op_c = None
   \<and> scalar_func' (operator_unary_plus f) = scalar_func' f
   \<and> vector_func' (operator_unary_plus f) = vector_func' f
   \<and> GetScalar (operator_unary_plus f) b w = GetScalar f b w
   \<and> GetVector (operator_unary_plus f) b w = GetVector f b w
   \<and> Name (operator_unary_plus f) = ReplaceAll_spaces (''+('' @ Name f @ '')'')
   \<and> (CHR '' '' \<notin> set (Name f) \<longrightarrow> Name (operator_unary_plus f) = ''+('' @ Name f @ '')'')"
proof -
  note shape = IsScalar_def IsVector_def GetScalar_def GetVector_def
  have s: "IsScalar (operator_unary_minus f) \<and> \<not> IsVector (operator_unary_minus f) \<and>
        IsScalar (operator_not f) \<and> \<not> IsVector (operator_not f) \<and>
        (sf b w = (Inr x, w1) \<longrightarrow>
           GetScalar (operator_unary_minus f) b w = (Inr (- x), w1) \<and>
           GetScalar (operator_not f) b w = (Inr (of_truth (\<not> truthy x)), w1))"
    if "scalar_func' f = Some sf"
    using that ApplyOp_scalar_result [of sf b w x w1 negate_op]
      ApplyOp_scalar_result [of sf b w x w1 logical_not_op]
    by (auto simp: shape unary_funcs negate_op_def logical_not_op_def ApplyOp_scalar_def)
  have v: "IsVector (operator_unary_minus f) \<and> \<not> IsScalar (operator_unary_minus f) \<and>
        IsVector (operator_not f) \<and> \<not> IsScalar (operator_not f) \<and>
        (vf b w = (Inr v, w1) \<longrightarrow>
           (\<exists>vo. GetVector (operator_unary_minus f) b w = (Inr vo, w1) \<and> length vo = length v \<and>
                 (\<forall>i<length v. vo ! i = - (v ! i))) \<and>
           (\<exists>vo. GetVector (operator_not f) b w = (Inr vo, w1) \<and> length vo = length v \<and>
                 (\<forall>i<length v. vo ! i = of_truth (\<not> truthy (v ! i)))))"
    if "vector_func' f = Some vf \<and> scalar_func' f = None"
    using that ApplyOp_vector_result [of vf b w v w1 negate_op]
      ApplyOp_vector_result [of vf b w v w1 logical_not_op]
    by (auto simp: shape unary_funcs negate_op_def logical_not_op_def ApplyOp_scalar_def
          ApplyOp_vector_def)
  have absent_s: "\<not> IsScalar (operator_unary_minus f) \<and> \<not> IsScalar (operator_not f) \<and>
        \<not> IsScalar (operator_unary_plus f)" if "\<not> IsScalar f"
    using that by (simp add: shape unary_funcs ApplyOp_scalar_def)
  have absent_v: "\<not> IsVector (operator_unary_minus f) \<and> \<not> IsVector (operator_not f) \<and>
        \<not> IsVector (operator_unary_plus f)" if "\<not> IsVector f"
    using that by (simp add: shape unary_funcs ApplyOp_vector_def)
  have plus: "scalar_func' (operator_unary_plus f) = scalar_func' f
     \<and> vector_func' (operator_unary_plus f) = vector_func' f
     \<and> GetScalar (operator_unary_plus f) b w = GetScalar f b w
     \<and> GetVector (operator_unary_plus f) b w = GetVector f b w
     \<and> Name (operator_unary_plus f) = ReplaceAll_spaces (''+('' @ Name f @ '')'')"
    by (simp add: shape unary_funcs unary_names)
  have clean: "Name (operator_unary_plus f) = ''+('' @ Name f @ '')''" if "CHR '' '' \<notin> set (Name f)"
    using that by (simp add: unary_names ReplaceAll_spaces_clean)
  have empty: "ApplyOp_scalar (None :: ('b, 'w) ScalarFunc option) op_c = None
     \<and> ApplyOp_vector (None :: ('b, 'w) VectorFunc option) op_c = None"
    by (simp add: ApplyOp_scalar_def ApplyOp_vector_def)
  from s v absent_s absent_v plus clean empty show ?thesis by blast
qed


lemma counting_names:
  "Name (counting_scalar name x) = ReplaceAll_spaces name"
  "Name (counting_vector name v) = ReplaceAll_spaces name"
  by (simp_all add: counting_scalar_def counting_vector_def NamedFunc_scalar_def
        NamedFunc_vector_def CleanName_def Name_def)

theorem unary_operators_keep_shape_witness:
  "GetScalar (operator_unary_minus (counting_scalar ''x'' 3)) () 0 = (Inr (- 3), 1)
   \<and> GetScalar (operator_not (counting_scalar ''x'' 3)) () 0 = (Inr 0, 1)
   \<and> \<not> IsVector (operator_unary_minus (counting_scalar ''x'' 3))
   \<and> (\<exists>vo. GetVector (operator_unary_minus (counting_vector ''v'' [1, 0])) () 0 = (Inr vo, 1)
          \<and> length vo = 2 \<and> vo ! 0 = - 1 \<and> vo ! 1 = 0)
   \<and> (\<exists>vo. GetVector (operator_not (counting_vector ''v'' [1, 0])) () 0 = (Inr vo, 1)
          \<and> length vo = 2 \<and> vo ! 0 = 0 \<and> vo ! 1 = 1)
   \<and> \<not> IsScalar (operator_not (counting_vector ''v'' [1, 0]))
   \<and> Name (operator_unary_plus (counting_scalar ''x'' 3)) = ''+(x)''
   \<and> GetScalar (operator_unary_plus (counting_scalar ''x'' 3)) () 0 = (Inr 3, 1)"
proof -
  have s: "GetScalar (operator_unary_minus (counting_scalar ''x'' 3)) () 0 = (Inr (- 3), 1)
     \<and> GetScalar (operator_not (counting_scalar ''x'' 3)) () 0 = (Inr 0, 1)
     \<and> \<not> IsVector (operator_unary_minus (counting_scalar ''x'' 3))
     \<and> Name (operator_unary_plus (counting_scalar ''x'' 3)) = ''+(x)''
     \<and> GetScalar (operator_unary_plus (counting_scalar ''x'' 3)) () 0 = (Inr 3, 1)"
    using unary_operators_keep_shape
      [where f = "counting_scalar ''x'' 3" and sf = "\<lambda>b w. (Inr 3, Suc w)"
         and b = "()" and w = 0 and x = 3 and ?w1.0 = 1 and op_c = negate_op
         and vf = "\<lambda>b w. (Inr [], w)" and v = "[]"]
    by (simp add: counting_scalar_funcs counting_names IsScalar_def IsVector_def truthy_def
          of_truth_def ReplaceAll_spaces_def GetScalar_def call_def)
  have v: "(\<exists>vo. GetVector (operator_unary_minus (counting_vector ''v'' [1, 0])) () 0 = (Inr vo, 1)
          \<and> length vo = 2 \<and> vo ! 0 = - 1 \<and> vo ! 1 = 0)
     \<and> (\<exists>vo. GetVector (operator_not (counting_vector ''v'' [1, 0])) () 0 = (Inr vo, 1)
          \<and> length vo = 2 \<and> vo ! 0 = 0 \<and> vo ! 1 = 1)
     \<and> \<not> IsScalar (operator_not (counting_vector ''v'' [1, 0]))"
    using unary_operators_keep_shape
      [where f = "counting_vector ''v'' [1, 0]" and vf = "\<lambda>b w. (Inr [1, 0], Suc w)"
         and b = "()" and w = 0 and v = "[1, 0]" and ?w1.0 = 1 and op_c = negate_op
         and sf = "\<lambda>b w. (Inr 0, w)" and x = 0]
    by (auto simp add: counting_vector_funcs IsScalar_def IsVector_def truthy_def
          of_truth_def All_less_Suc)
  from s v show ?thesis by blast
qed

subsection \<open>Names\<close>

lemma symbol_of_no_space: "CHR '' '' \<notin> set (symbol_of bop)"
  by (cases bop) simp_all

lemma compound_assignment_name:
  "Name (compound_assignment symbol op_c f g) = ''('' @ Name f @ '')'' @ symbol @ ''('' @ Name g @ '')''"
  by (simp add: compound_assignment_def Let_def Name_def)

lemma rename_and_set_name:
  "Name (rename_and_set symbol apply_op f g)
     = ReplaceAll_spaces (''('' @ Name f @ '')'' @ symbol @ ''('' @ Name g @ '')'')"
  by (simp add: rename_and_set_def Let_def Name_def Function_scalar_def Function_vector_def
        set_Name_def CleanName_def)

lemma binary_name_cases:
  "Name (binary bop f g) =
     (if bop \<in> {Add, Subtract, Multiply, Divide, Modulo}
      then ''('' @ Name f @ '')'' @ symbol_of bop @ ''('' @ Name g @ '')''
      else ReplaceAll_spaces (''('' @ Name f @ '')'' @ symbol_of bop @ ''('' @ Name g @ '')''))"
  by (cases bop) (simp_all add: binary_operator_defs compound_assignment_name rename_and_set_name)

lemma parenthesised_clean:
  assumes "CHR '' '' \<notin> set a" and "CHR '' '' \<notin> set symbol" and "CHR '' '' \<notin> set c"
  shows "ReplaceAll_spaces (''('' @ a @ '')'' @ symbol @ ''('' @ c @ '')'')
           = ''('' @ a @ '')'' @ symbol @ ''('' @ c @ '')''"
  using assms by (intro ReplaceAll_spaces_clean) simp

text \<open>
  Claim C9. For operands whose names hold no space (as every name set through a
  constructor or the setter does), the name of the result of every binary operator is
  \<open>(\<close> + the left name + \<open>)\<close> + the symbol + \<open>(\<close> + the right name + \<open>)\<close>, which holds
  no space either and is its own cleaned form; the name of a doubly negated operand is
  \<open>-(-(\<close> + its name + \<open>))\<close>; and a constructor's name is the given name without its
  spaces.
\<close>

theorem binary_names:
  fixes A B :: "('b, 'w) NamedFunc"
  assumes "CHR '' '' \<notin> set (Name A)" and "CHR '' '' \<notin> set (Name B)"
  shows "Name (binary bop A B) = ''('' @ Name A @ '')'' @ symbol_of bop @ ''('' @ Name B @ '')''
       \<and> Name (operator_and A B) = ''('' @ Name A @ '')&&('' @ Name B @ '')''
       \<and> Name (operator_or A B) = ''('' @ Name A @ '')||('' @ Name B @ '')''
       \<and> Name (binary bop A B)
           = ReplaceAll_spaces (''('' @ Name A @ '')'' @ symbol_of bop @ ''('' @ Name B @ '')'')
       \<and> CHR '' '' \<notin> set (Name (binary bop A B))
       \<and> CHR '' '' \<notin> set (Name (operator_and A B))
       \<and> CHR '' '' \<notin> set (Name (operator_or A B))
       \<and> Name (operator_unary_minus (operator_unary_minus A)) = ''-(-('' @ Name A @ ''))''
       \<and> Name (NamedFunc_scalar x sf :: ('b, 'w) NamedFunc) = ReplaceAll_spaces x
       \<and> Name (NamedFunc_vector x vf :: ('b, 'w) NamedFunc) = ReplaceAll_spaces x
       \<and> CHR '' '' \<notin> set (Name (NamedFunc_scalar x sf :: ('b, 'w) NamedFunc))
       \<and> CHR '' '' \<notin> set (Name (NamedFunc_vector x vf :: ('b, 'w) NamedFunc))"
proof -
  have clean: "ReplaceAll_spaces (''('' @ Name A @ '')'' @ symbol @ ''('' @ Name B @ '')'')
                 = ''('' @ Name A @ '')'' @ symbol @ ''('' @ Name B @ '')''"
    if "CHR '' '' \<notin> set symbol" for symbol
    using assms that by (intro parenthesised_clean)
  have b: "Name (binary bop A B) = ''('' @ Name A @ '')'' @ symbol_of bop @ ''('' @ Name B @ '')''"
    by (simp only: binary_name_cases clean [OF symbol_of_no_space] if_cancel)
  have sa: "CHR '' '' \<notin> set ''&&''" and so: "CHR '' '' \<notin> set ''||''"
    by simp_all
  have a: "Name (operator_and A B) = ''('' @ Name A @ '')'' @ ''&&'' @ ''('' @ Name B @ '')''"
    by (simp only: operator_and_def rename_and_set_name clean [OF sa])
  have o: "Name (operator_or A B) = ''('' @ Name A @ '')'' @ ''||'' @ ''('' @ Name B @ '')''"
    by (simp only: operator_or_def rename_and_set_name clean [OF so])
  have n: "Name (operator_unary_minus (operator_unary_minus A)) = ''-(-('' @ Name A @ ''))''"
    using assms(1) by (auto simp: unary_names ReplaceAll_spaces_def filter_id_conv)
  have c: "Name (NamedFunc_scalar x sf :: ('b, 'w) NamedFunc) = ReplaceAll_spaces x"
    "Name (NamedFunc_vector x vf :: ('b, 'w) NamedFunc) = ReplaceAll_spaces x"
    by (simp_all add: NamedFunc_scalar_def NamedFunc_vector_def CleanName_def Name_def)
  show ?thesis
    using assms symbol_of_no_space [of bop]
    by (simp add: b a o n c ReplaceAll_spaces_clean ReplaceAll_spaces_no_space)
qed

theorem binary_names_witness:
  "Name (operator_plus (counting_scalar ''x'' 1) (counting_scalar ''y'' 2)) = ''(x)+(y)''
   \<and> Name (operator_greater (counting_scalar ''pt'' 40) (counting_scalar ''30'' 30)) = ''(pt)>(30)''
   \<and> Name (operator_and (counting_scalar ''n jets'' 4) (counting_vector ''pt'' [40])) = ''(njets)&&(pt)''
   \<and> Name (operator_unary_minus (operator_unary_minus (counting_scalar ''x'' 1))) = ''-(-(x))''"
proof -
  have n: "Name (counting_scalar ''y'' 2) = ''y''"
    "Name (counting_scalar ''pt'' 40) = ''pt''" "Name (counting_scalar ''30'' 30) = ''30''"
    "Name (counting_scalar ''n jets'' 4) = ''njets''" "Name (counting_vector ''pt'' [40]) = ''pt''"
    "Name (counting_scalar ''x'' 1) = ''x''"
    by (simp_all add: counting_names ReplaceAll_spaces_def)
  show ?thesis
    using
      binary_names [of "counting_scalar ''x'' 1" "counting_scalar ''y'' 2" Add]
      binary_names [of "counting_scalar ''pt'' 40" "counting_scalar ''30'' 30" Greater]
      binary_names [of "counting_scalar ''n jets'' 4" "counting_vector ''pt'' [40]"]
      binary_names [of "counting_scalar ''x'' 1" "counting_scalar ''x'' 1"]
    by (simp add: n)
qed


subsection \<open>Binary arithmetic and compound assignment\<close>

text \<open>
  Claim C10. For every pair of objects \<open>f\<close> and \<open>g\<close> and each of \<open>+\<close>, \<open>-\<close>, \<open>*\<close>,
  \<open>/\<close>, \<open>%\<close>, the expression \<open>f op g\<close> is the object that the compound assignment
  \<open>op=\<close> with argument \<open>g\<close> leaves in a copy of \<open>f\<close>: the same name, the same shape and
  the same result on every record.
\<close>

theorem binary_is_compound_assignment_on_copy:
  fixes f g :: "('b, 'w) NamedFunc"
  shows "operator_plus f g = operator_plus_assign f g \<and> identical (operator_plus f g) (operator_plus_assign f g)
       \<and> operator_minus f g = operator_minus_assign f g \<and> identical (operator_minus f g) (operator_minus_assign f g)
       \<and> operator_times f g = operator_times_assign f g \<and> identical (operator_times f g) (operator_times_assign f g)
       \<and> operator_divide f g = operator_divide_assign f g \<and> identical (operator_divide f g) (operator_divide_assign f g)
       \<and> operator_modulo f g = operator_modulo_assign f g \<and> identical (operator_modulo f g) (operator_modulo_assign f g)"
  by (simp add: operator_plus_def operator_minus_def operator_times_def operator_divide_def
        operator_modulo_def identical_def)

end
